theory Spec2Isabelle
  imports Main "HOL-Library.AList"
begin

section \<open>JavaScript values, strings and errors\<close>

text \<open>
  The repository is a Node.js program. Strings are modelled as \<^typ>\<open>string\<close>, that is as
  sequences of code units below 256; numbers that the code computes with are small
  integers, so a JavaScript number is an \<^typ>\<open>int option\<close> whose \<open>None\<close> is \<open>NaN\<close>.
  A thrown exception is the left summand of a sum type; \<open>message\<close> reads its
  \<open>.message\<close> property. The texts of the \<open>TypeError\<close>s are those of V8, the engine of
  the Node 18 image the repository is deployed on.
\<close>

datatype js_error = JsError string | JsTypeError string | JsRangeError string

fun message :: "js_error \<Rightarrow> string" where
  "message (JsError m) = m"
| "message (JsTypeError m) = m"
| "message (JsRangeError m) = m"

type_synonym number = "int option"

definition num_add :: "number \<Rightarrow> number \<Rightarrow> number" where
  "num_add a b = (case (a, b) of (Some x, Some y) \<Rightarrow> Some (x + y) | _ \<Rightarrow> None)"

definition num_sub :: "number \<Rightarrow> number \<Rightarrow> number" where
  "num_sub a b = (case (a, b) of (Some x, Some y) \<Rightarrow> Some (x - y) | _ \<Rightarrow> None)"

definition num_mul :: "number \<Rightarrow> number \<Rightarrow> number" where
  "num_mul a b = (case (a, b) of (Some x, Some y) \<Rightarrow> Some (x * y) | _ \<Rightarrow> None)"

definition num_rem :: "number \<Rightarrow> number \<Rightarrow> number" where
  \<comment> \<open>The operator \<open>%\<close>: the remainder takes the sign of the dividend; \<open>x % 0\<close> is \<open>NaN\<close>.\<close>
  "num_rem a b = (case (a, b) of
      (Some x, Some y) \<Rightarrow> if y = 0 then None else Some (sgn x * (\<bar>x\<bar> mod \<bar>y\<bar>))
    | _ \<Rightarrow> None)"

definition num_strict_eq :: "number \<Rightarrow> number \<Rightarrow> bool" where
  \<comment> \<open>The operator \<open>===\<close> on numbers: \<open>NaN\<close> equals nothing, itself included.\<close>
  "num_strict_eq a b = (case (a, b) of (Some x, Some y) \<Rightarrow> x = y | _ \<Rightarrow> False)"

definition is_digit :: "char \<Rightarrow> bool" where
  \<comment> \<open>The class \<open>\d\<close> of a regular expression without the \<open>u\<close> flag: \<open>0\<close> to \<open>9\<close>.\<close>
  "is_digit c = (48 \<le> (of_char c :: nat) \<and> (of_char c :: nat) \<le> 57)"

definition is_space :: "char \<Rightarrow> bool" where
  \<comment> \<open>The class \<open>\s\<close> among the code units below 256: tab, line feed, vertical tab,
      form feed, carriage return, space and the no-break space.\<close>
  "is_space c = ((of_char c :: nat) \<in> set [9, 10, 11, 12, 13, 32, 160])"

definition digit_value :: "char \<Rightarrow> int" where
  "digit_value c = int (of_char c) - 48"

definition char_at :: "string \<Rightarrow> nat \<Rightarrow> char option" where
  \<comment> \<open>\<open>s[i]\<close>: \<open>None\<close> is \<open>undefined\<close>, what an index past the end reads.\<close>
  "char_at s i = (if i < length s then Some (s ! i) else None)"

definition parseInt :: "char option \<Rightarrow> number" where
  \<comment> \<open>\<open>parseInt(s[i], 10)\<close> of a single character, or of \<open>undefined\<close>.\<close>
  "parseInt x = (case x of
      None \<Rightarrow> None
    | Some c \<Rightarrow> if is_digit c then Some (digit_value c) else None)"

definition all_digits :: "string \<Rightarrow> bool" where
  \<comment> \<open>\<open>/^\d+$/.test(s)\<close>\<close>
  "all_digits s = (s \<noteq> [] \<and> list_all is_digit s)"

definition js_trim :: "string \<Rightarrow> string" where
  "js_trim s = rev (dropWhile is_space (rev (dropWhile is_space s)))"

definition remove_hyphens_and_spaces :: "string \<Rightarrow> string" where
  \<comment> \<open>\<open>s.replace(/[-\s]/g, '')\<close>\<close>
  "remove_hyphens_and_spaces s = filter (\<lambda>c. \<not> (c = CHR ''-'' \<or> is_space c)) s"

definition remove_spaces :: "string \<Rightarrow> string" where
  \<comment> \<open>\<open>s.replace(/\s/g, '')\<close>\<close>
  "remove_spaces s = filter (\<lambda>c. \<not> is_space c) s"

section \<open>Validators (src/app.js)\<close>

datatype validation = Valid | Invalid string

definition isValidISBN13 :: "string \<Rightarrow> bool" where
  "isValidISBN13 isbn =
     (let sum = fold (\<lambda>i acc. num_add acc
                   (num_mul (Some (if i mod 2 = 0 then 1 else 3)) (parseInt (char_at isbn i))))
                 [0..<12] (Some 0);
          checksum = num_rem (num_sub (Some 10) (num_rem sum (Some 10))) (Some 10)
      in num_strict_eq checksum (parseInt (char_at isbn 12)))"

definition isValidISBN10 :: "string \<Rightarrow> js_error + bool" where
  \<comment> \<open>\<open>isbn[9].toUpperCase()\<close> throws when the string has fewer than ten characters.\<close>
  "isValidISBN10 isbn =
     (let sum = fold (\<lambda>i acc. num_add acc
                   (num_mul (Some (10 - int i)) (parseInt (char_at isbn i))))
                 [0..<9] (Some 0)
      in case char_at isbn 9 of
           None \<Rightarrow> Inl (JsTypeError
             (''Cannot read properties of undefined (reading '' @ [CHR 0x27] @ ''toUpperCase''
                @ [CHR 0x27] @ '')''))
         | Some c \<Rightarrow>
             (let checkDigit = (if c = CHR ''X'' \<or> c = CHR ''x'' then Some 10
                                else parseInt (Some c));
                  sum = num_add sum checkDigit
              in Inr (num_strict_eq (num_rem sum (Some 11)) (Some 0))))"

definition validateISBN :: "string \<Rightarrow> js_error + validation" where
  "validateISBN isbn =
     (let cleanISBN = remove_hyphens_and_spaces isbn in
      if js_trim cleanISBN = [] then Inr (Invalid ''ISBN cannot be empty'')
      else if all_digits cleanISBN then
        (if length cleanISBN = 13 then
           (if \<not> (take 3 cleanISBN = ''978'' \<or> take 3 cleanISBN = ''979'')
            then Inr (Invalid ''ISBN-13 must start with 978 or 979'')
            else if \<not> isValidISBN13 cleanISBN then Inr (Invalid ''Invalid ISBN-13 checksum'')
            else Inr Valid)
         else if length cleanISBN = 10 then
           (case isValidISBN10 cleanISBN of
              Inl e \<Rightarrow> Inl e
            | Inr ok \<Rightarrow> if \<not> ok then Inr (Invalid ''Invalid ISBN-10 checksum'') else Inr Valid)
         else Inr (Invalid ''Numeric ISBN must be either 10 or 13 digits long''))
      else Inr Valid)"

definition order_number_error :: string where
  "order_number_error =
     ''Order number must be either: 5 digits, more than 5 digits starting with ''
     @ [CHR 0x27] @ ''1'' @ [CHR 0x27] @ '', or start with '' @ [CHR 0x27] @ ''D''
     @ [CHR 0x27] @ '' followed by numbers''"

definition validateOrderNumber :: "string \<Rightarrow> validation" where
  "validateOrderNumber orderNumber =
     (let cleanOrderNumber = remove_spaces orderNumber in
      if (case cleanOrderNumber of [] \<Rightarrow> False | c # ds \<Rightarrow> c = CHR ''D'' \<and> all_digits ds)
      then Valid
      else if length cleanOrderNumber = 5 \<and> list_all is_digit cleanOrderNumber then Valid
      else if (case cleanOrderNumber of [] \<Rightarrow> False
               | c # ds \<Rightarrow> c = CHR ''1'' \<and> 5 \<le> length ds \<and> list_all is_digit ds)
      then Valid
      else Invalid order_number_error)"

section \<open>Objects and property access\<close>

text \<open>
  A field bag is a plain object: a finite map from property names to values. Reading a
  property that the object does not own falls through to \<open>Object.prototype\<close>, whose
  members are functions (and, for \<open>__proto__\<close>, the prototype object itself): truthy
  values that are neither arrays nor iterable. Non-integral numbers are not
  distinguished: for the truthiness test they behave as the non-zero integers do.
\<close>

datatype jsval =
    JUndefined | JNull | JBool bool | JNumber int | JNaN | JString string
  | JDate int | JObject

fun truthy :: "jsval \<Rightarrow> bool" where
  "truthy JUndefined = False"
| "truthy JNull = False"
| "truthy (JBool b) = b"
| "truthy (JNumber n) = (n \<noteq> 0)"
| "truthy JNaN = False"
| "truthy (JString s) = (s \<noteq> [])"
| "truthy (JDate t) = True"
| "truthy JObject = True"

type_synonym bag = "string \<rightharpoonup> jsval"

definition object_prototype_keys :: "string list" where
  "object_prototype_keys =
     [''constructor'', ''__defineGetter__'', ''__defineSetter__'', ''hasOwnProperty'',
      ''__lookupGetter__'', ''__lookupSetter__'', ''isPrototypeOf'',
      ''propertyIsEnumerable'', ''toString'', ''valueOf'', ''__proto__'',
      ''toLocaleString'']"

definition get_field :: "bag \<Rightarrow> string \<Rightarrow> jsval" where
  \<comment> \<open>\<open>bag[k]\<close>\<close>
  "get_field b k = (case b k of
      Some v \<Rightarrow> v
    | None \<Rightarrow> if k \<in> set object_prototype_keys then JObject else JUndefined)"

text \<open>
  The configuration tables are object literals, kept as association lists in the order
  they are written. A lookup finds an own entry, an inherited member, or nothing.
\<close>

datatype 'a property = Own 'a | Inherited | Missing

definition get_property :: "(string \<times> 'a) list \<Rightarrow> string \<Rightarrow> 'a property" where
  "get_property obj k = (case map_of obj k of
      Some v \<Rightarrow> Own v
    | None \<Rightarrow> if k \<in> set object_prototype_keys then Inherited else Missing)"

definition js_join :: "string \<Rightarrow> string list \<Rightarrow> string" where
  \<comment> \<open>\<open>xs.join(sep)\<close>\<close>
  "js_join sep xs = (case xs of [] \<Rightarrow> [] | x # ys \<Rightarrow> foldl (\<lambda>acc y. acc @ sep @ y) x ys)"

fun str_includes :: "string \<Rightarrow> string \<Rightarrow> bool" where
  \<comment> \<open>\<open>s.includes(sub)\<close>\<close>
  "str_includes [] sub = (sub = [])"
| "str_includes (c # cs) sub = (take (length sub) (c # cs) = sub \<or> str_includes cs sub)"

section \<open>Type registry (the constructor of UnifiedEventLogger)\<close>

record type_config =
  possibleStatuses :: "string list"
  statusTransitions :: "(string \<times> string list) list"
  requiredFieldsPerStatus :: "(string \<times> string list) list"

definition REQUIRED_FIELDS :: "(string \<times> string list) list" where
  "REQUIRED_FIELDS =
     [(''special_order'',
         [''customerName'', ''customerContact'', ''vendorPublisher'', ''details'', ''dateNeeded'']),
      (''book_hold'', [''customerName'', ''customerContact'', ''isbn'', ''details'']),
      (''backorder_request'',
         [''customerName'', ''customerContact'', ''isbn'', ''details'', ''dateNeeded'']),
      (''out_of_print'',
         [''customerName'', ''customerContact'', ''vendorPublisher'', ''details'', ''dateNeeded'',
          ''condition'']),
      (''bulk_order'', [''customerName'', ''customerContact'', ''isbn'', ''details'', ''dateNeeded'']),
      (''personalization'',
         [''customerName'', ''customerContact'', ''isbn'', ''details'', ''dateNeeded''])]"

definition COMMON_STATUSES :: "string list" where
  "COMMON_STATUSES =
     [''NEW'', ''ORDERED'', ''RECEIVED'', ''NOTIFIED'', ''PAID'', ''COMPLETED'', ''CANCELLED'']"

definition IMPROVED_TRANSITIONS :: "(string \<times> string list) list" where
  "IMPROVED_TRANSITIONS =
     [(''NEW'', [''ORDERED'', ''CANCELLED'']),
      (''ORDERED'', [''RECEIVED'', ''CANCELLED'']),
      (''RECEIVED'', [''NOTIFIED'', ''CANCELLED'']),
      (''NOTIFIED'', [''PAID'', ''CANCELLED'']),
      (''PAID'', [''COMPLETED'', ''CANCELLED'']),
      (''COMPLETED'', []),
      (''CANCELLED'', [])]"

definition BOOK_HOLD_TRANSITIONS :: "(string \<times> string list) list" where
  "BOOK_HOLD_TRANSITIONS =
     [(''NEW'', [''PAID'', ''CANCELLED'']),
      (''PAID'', [''COMPLETED'', ''CANCELLED'']),
      (''COMPLETED'', []),
      (''CANCELLED'', [])]"

definition ORDER_FIELDS :: "(string \<times> string list) list" where
  \<comment> \<open>The \<open>requiredFieldsPerStatus\<close> literal that \<open>special_order\<close>, \<open>backorder_request\<close>
      and \<open>bulk_order\<close> each spell out.\<close>
  "ORDER_FIELDS =
     [(''ORDERED'', [''ordered_by'', ''order_method'', ''estimated_arrival'']),
      (''RECEIVED'', [''arrival_date'']),
      (''NOTIFIED'', [''notification_method'', ''notification_date'']),
      (''PAID'', [''payment_method'', ''order_number'']),
      (''COMPLETED'', [''completion_date''])]"

definition CONSTRUCTED_REQUEST_TYPES :: "(string \<times> type_config) list" where
  "CONSTRUCTED_REQUEST_TYPES =
     [(''special_order'',
         \<lparr>possibleStatuses = COMMON_STATUSES, statusTransitions = IMPROVED_TRANSITIONS,
          requiredFieldsPerStatus = ORDER_FIELDS\<rparr>),
      (''book_hold'',
         \<lparr>possibleStatuses = COMMON_STATUSES, statusTransitions = BOOK_HOLD_TRANSITIONS,
          requiredFieldsPerStatus =
            [(''PAID'', [''payment_method'', ''order_number'']),
             (''COMPLETED'', [''completion_date''])]\<rparr>),
      (''backorder_request'',
         \<lparr>possibleStatuses = COMMON_STATUSES, statusTransitions = IMPROVED_TRANSITIONS,
          requiredFieldsPerStatus = ORDER_FIELDS\<rparr>),
      (''out_of_print'',
         \<lparr>possibleStatuses = COMMON_STATUSES, statusTransitions = IMPROVED_TRANSITIONS,
          requiredFieldsPerStatus =
            [(''ORDERED'', [''source'', ''estimated_cost'']),
             (''RECEIVED'', [''arrival_date'', ''actual_cost'']),
             (''NOTIFIED'', [''notification_method'', ''notification_date'']),
             (''PAID'', [''payment_method'', ''order_number'']),
             (''COMPLETED'', [''completion_date''])]\<rparr>),
      (''bulk_order'',
         \<lparr>possibleStatuses = COMMON_STATUSES, statusTransitions = IMPROVED_TRANSITIONS,
          requiredFieldsPerStatus = ORDER_FIELDS\<rparr>),
      (''personalization'',
         \<lparr>possibleStatuses = COMMON_STATUSES, statusTransitions = IMPROVED_TRANSITIONS,
          requiredFieldsPerStatus =
            [(''IN_PROGRESS'', [''personalization_details'', ''estimated_completion'']),
             (''NOTIFIED'', [''notification_method'', ''notification_date'']),
             (''PAID'', [''payment_method'', ''payment_amount'']),
             (''COMPLETED'', [''completion_date''])]\<rparr>)]"

definition REQUEST_TYPES :: "(string \<times> type_config) list" where
  \<comment> \<open>The table the running program uses: src/app.js assigns
      \<open>REQUEST_TYPES.book_hold.requiredFieldsPerStatus.PAID\<close> at start-up.\<close>
  "REQUEST_TYPES =
     AList.map_entry ''book_hold''
       (\<lambda>cfg. cfg\<lparr>requiredFieldsPerStatus :=
                 AList.update ''PAID'' [''payment_method'', ''order_number'']
                   (requiredFieldsPerStatus cfg)\<rparr>)
       CONSTRUCTED_REQUEST_TYPES"

section \<open>Transition engine (UnifiedEventLogger)\<close>

definition validateRequiredFieldsForType :: "string \<Rightarrow> bag \<Rightarrow> js_error + bool" where
  "validateRequiredFieldsForType requestType providedData =
     (case get_property REQUIRED_FIELDS requestType of
        Missing \<Rightarrow> Inl (JsError (''Unknown request type: '' @ requestType))
      | Inherited \<Rightarrow> Inl (JsTypeError ''requiredFields.filter is not a function'')
      | Own requiredFields \<Rightarrow>
          (let missingFields = filter (\<lambda>field. \<not> truthy (get_field providedData field))
                                 requiredFields
           in if length missingFields > 0
              then Inl (JsError (''Missing required fields for '' @ requestType @ '': ''
                                  @ js_join '', '' missingFields))
              else Inr True))"

definition validateStatusTransition :: "string \<Rightarrow> string \<Rightarrow> string \<Rightarrow> js_error + bool" where
  "validateStatusTransition requestType currentStatus newStatus =
     (case get_property REQUEST_TYPES requestType of
        Missing \<Rightarrow> Inl (JsError (''Unsupported request type: '' @ requestType))
      | Inherited \<Rightarrow> Inl (JsTypeError
          (''Cannot read properties of undefined (reading '' @ [CHR 0x27] @ currentStatus
             @ [CHR 0x27] @ '')''))
      | Own typeConfig \<Rightarrow>
          (case get_property (statusTransitions typeConfig) currentStatus of
             Inherited \<Rightarrow> Inl (JsTypeError ''validTransitions.includes is not a function'')
           | found \<Rightarrow>
               (let validTransitions = (case found of Own ts \<Rightarrow> ts | _ \<Rightarrow> []) in
                if newStatus \<notin> set validTransitions
                then Inl (JsError (''Invalid status transition from '' @ currentStatus @ '' to ''
                                    @ newStatus @ '' for '' @ requestType))
                else Inr True)))"

fun required_fields_loop :: "string \<Rightarrow> string \<Rightarrow> bag \<Rightarrow> string list \<Rightarrow> js_error + bool" where
  \<comment> \<open>The \<open>for ... of\<close> loop of \<open>validateRequiredFields\<close>: it throws at the first field
      whose value is falsy.\<close>
  "required_fields_loop requestType newStatus providedFields [] = Inr True"
| "required_fields_loop requestType newStatus providedFields (field # rest) =
     (if \<not> truthy (get_field providedFields field)
      then Inl (JsError (''Field '' @ [CHR 0x22] @ field @ [CHR 0x22] @ '' is required for ''
                          @ requestType @ '' to transition to '' @ newStatus))
      else required_fields_loop requestType newStatus providedFields rest)"

definition validateRequiredFields :: "string \<Rightarrow> string \<Rightarrow> bag \<Rightarrow> js_error + bool" where
  "validateRequiredFields requestType newStatus providedFields =
     (case get_property REQUEST_TYPES requestType of
        Own typeConfig \<Rightarrow>
          (case get_property (requiredFieldsPerStatus typeConfig) newStatus of
             Inherited \<Rightarrow> Inl (JsTypeError ''requiredFields is not iterable'')
           | Missing \<Rightarrow> required_fields_loop requestType newStatus providedFields []
           | Own requiredFields \<Rightarrow>
               required_fields_loop requestType newStatus providedFields requiredFields)
      | _ \<Rightarrow> Inr True)"

subsection \<open>The stores and their environment\<close>

text \<open>
  The state is what the engine writes: the MongoDB collections \<open>requests\<close> and
  \<open>events\<close> (documents in insertion order), the event log files
  \<open><type>_events.log\<close> (the entries appended, by request type) and the request log files
  \<open><type>_requests.log\<close> (their text, by request type; \<open>None\<close> when the file does not
  exist). No name ends both in \<open>_events.log\<close> and in \<open>_requests.log\<close>, so the two
  families of files are kept apart. Console output is not part of the state.

  What the engine cannot decide is a parameter: the instant \<open>new Date()\<close> returns and
  whether each call to the database or the file system succeeds. \<open>$set\<close> is taken on
  plain field names (no dotted paths), and the \<open>_id\<close> MongoDB adds is left out.
\<close>

type_synonym doc = "string \<rightharpoonup> jsval"

record event =
  ev_requestId :: string
  ev_requestType :: string
  ev_action :: string
  ev_previousStatus :: string
  ev_newStatus :: string
  ev_timestamp :: int
  ev_userId :: string
  ev_additionalMetadata :: bag

record store =
  requests :: "doc list"
  events :: "event list"
  event_log_files :: "string \<Rightarrow> event list"
  request_log_files :: "string \<rightharpoonup> string"

record env =
  now :: int
  events_insert_ok :: bool
  events_file_ok :: bool
  requests_update_ok :: bool
  requests_log_ok :: bool
  requests_insert_ok :: bool
  db_error :: string

datatype outcome = Success string | Failure string

record event_data =
  ed_requestType :: string
  ed_requestId :: string
  ed_action :: string
  ed_previousStatus :: "string option"
  ed_newStatus :: "string option"
  ed_userId :: "string option"
  ed_additionalMetadata :: "bag option"

definition or_else :: "string option \<Rightarrow> string \<Rightarrow> string" where
  \<comment> \<open>\<open>x || d\<close> for a string \<open>x\<close> that may be \<open>undefined\<close>: the empty string is falsy.\<close>
  "or_else x d = (case x of None \<Rightarrow> d | Some s \<Rightarrow> if s = [] then d else s)"

definition logEvent :: "env \<Rightarrow> store \<Rightarrow> event_data \<Rightarrow> outcome \<times> store" where
  "logEvent e st eventData =
     (let entry = \<lparr>ev_requestId = ed_requestId eventData,
                   ev_requestType = ed_requestType eventData,
                   ev_action = ed_action eventData,
                   ev_previousStatus = or_else (ed_previousStatus eventData) [],
                   ev_newStatus = or_else (ed_newStatus eventData) [],
                   ev_timestamp = now e,
                   ev_userId = or_else (ed_userId eventData) ''system'',
                   ev_additionalMetadata =
                     (case ed_additionalMetadata eventData of None \<Rightarrow> Map.empty | Some m \<Rightarrow> m)\<rparr>;
          st1 = (if events_insert_ok e then st\<lparr>events := events st @ [entry]\<rparr> else st);
          st2 = (if events_file_ok e
                 then st1\<lparr>event_log_files := (event_log_files st1)
                        (ed_requestType eventData :=
                           event_log_files st1 (ed_requestType eventData) @ [entry])\<rparr>
                 else st1)
      in (Success ''Event logged successfully'', st2))"

definition matches_requestId :: "string \<Rightarrow> doc \<Rightarrow> bool" where
  \<comment> \<open>The filter \<open>{ requestId }\<close>\<close>
  "matches_requestId requestId d = (d ''requestId'' = Some (JString requestId))"

fun updateOne :: "doc list \<Rightarrow> string \<Rightarrow> bag \<Rightarrow> doc list option" where
  \<comment> \<open>\<open>requests.updateOne({ requestId }, { $set: updates })\<close>: the first matching document
      is updated; \<open>None\<close> is \<open>matchedCount === 0\<close>.\<close>
  "updateOne [] requestId updates = None"
| "updateOne (d # ds) requestId updates =
     (if matches_requestId requestId d then Some ((d ++ updates) # ds)
      else map_option ((#) d) (updateOne ds requestId updates))"

definition update_document ::
  "env \<Rightarrow> store \<Rightarrow> string \<Rightarrow> string \<Rightarrow> string \<Rightarrow> string \<Rightarrow> bag \<Rightarrow> outcome \<times> store" where
  \<comment> \<open>Step 4 of \<open>updateRequestStatus\<close>, "Update request in MongoDB": the \<open>updateOne\<close>,
      and when it matches nothing the search of the request log and the insert of a new
      document. An exception of the insert is caught and ends in the "No request found"
      error as well.\<close>
  "update_document e st requestType requestId currentStatus newStatus additionalFields =
     (if \<not> requests_update_ok e then (Failure (db_error e), st)
      else
        (case updateOne (requests st) requestId
                ([''status'' \<mapsto> JString newStatus, ''updatedAt'' \<mapsto> JDate (now e)]
                   ++ additionalFields) of
           Some updated \<Rightarrow>
             (Success (''Request '' @ requestId @ '' status updated from '' @ currentStatus
                         @ '' to '' @ newStatus),
              st\<lparr>requests := updated\<rparr>)
         | None \<Rightarrow>
             (if requests_log_ok e
                 \<and> (case request_log_files st requestType of
                       None \<Rightarrow> False
                     | Some fileContent \<Rightarrow> str_includes fileContent requestId)
                 \<and> requests_insert_ok e
              then
                (let newDoc = [''requestId'' \<mapsto> JString requestId,
                               ''type'' \<mapsto> JString requestType,
                               ''status'' \<mapsto> JString newStatus,
                               ''createdAt'' \<mapsto> JDate (now e),
                               ''updatedAt'' \<mapsto> JDate (now e)] ++ additionalFields
                 in (Success (''Created new entry for request '' @ requestId
                                @ '' with status '' @ newStatus),
                     st\<lparr>requests := requests st @ [newDoc]\<rparr>))
              else (Failure (''No request found with ID: '' @ requestId), st))))"

definition updateRequestStatus ::
  "env \<Rightarrow> store \<Rightarrow> string \<Rightarrow> string \<Rightarrow> string \<Rightarrow> string \<Rightarrow> string option \<Rightarrow> bag
     \<Rightarrow> outcome \<times> store" where
  "updateRequestStatus e st requestType requestId currentStatus newStatus userId additionalFields =
     (case validateStatusTransition requestType currentStatus newStatus of
        Inl validationError \<Rightarrow> (Failure (message validationError), st)
      | Inr _ \<Rightarrow>
     (case validateRequiredFields requestType newStatus additionalFields of
        Inl fieldsError \<Rightarrow> (Failure (message fieldsError), st)
      | Inr _ \<Rightarrow>
     (let st1 = snd (logEvent e st
                  \<lparr>ed_requestType = requestType, ed_requestId = requestId,
                   ed_action = ''STATUS_CHANGE'', ed_previousStatus = Some currentStatus,
                   ed_newStatus = Some newStatus, ed_userId = userId,
                   ed_additionalMetadata = Some additionalFields\<rparr>)
      in update_document e st1 requestType requestId currentStatus newStatus
           additionalFields)))"

definition findOne :: "store \<Rightarrow> string \<Rightarrow> doc option" where
  \<comment> \<open>\<open>requests.findOne({ requestId })\<close>, the database read of \<open>getRequestById\<close>\<close>
  "findOne st requestId = find (matches_requestId requestId) (requests st)"

definition stored_status :: "store \<Rightarrow> string \<Rightarrow> jsval option" where
  "stored_status st requestId = (case findOne st requestId of
      None \<Rightarrow> None
    | Some d \<Rightarrow> d ''status'')"

definition getRequestHistory :: "store \<Rightarrow> string \<Rightarrow> event list" where
  \<comment> \<open>\<open>events.find({ requestId }).sort({ timestamp: 1 })\<close>. Events of one timestamp
      keep their insertion order here; MongoDB does not promise an order among them.\<close>
  "getRequestHistory st requestId =
     sort_key ev_timestamp (filter (\<lambda>ev. ev_requestId ev = requestId) (events st))"

section \<open>Date checks of the form handlers (src/app.js)\<close>

text \<open>
  Instants are milliseconds since the epoch, as \<open>getTime()\<close> gives them; the zone of the
  process is \<open>tz\<close> milliseconds ahead of UTC (a fixed offset: no daylight-saving change
  between the dates compared). A date picker yields a calendar day, counted in days
  since 1970-01-01, or \<open>null\<close>. \<open>new Date("YYYY-MM-DD")\<close> is that day's midnight in UTC,
  \<open>new Date("YYYY-MM-DDT00:00:00")\<close> its midnight in the zone of the process,
  \<open>new Date(null)\<close> the epoch and \<open>new Date("nullT00:00:00")\<close> an invalid date, whose
  \<open>toISOString()\<close> throws a \<open>RangeError\<close>.
\<close>

definition DAY_MS :: int where
  "DAY_MS = 86400000"

definition local_day :: "int \<Rightarrow> int \<Rightarrow> int" where
  \<comment> \<open>The calendar day an instant falls on in the zone of the process.\<close>
  "local_day tz t = (t + tz) div DAY_MS"

definition setHours0 :: "int \<Rightarrow> int \<Rightarrow> int" where
  \<comment> \<open>\<open>d.setHours(0, 0, 0, 0)\<close>\<close>
  "setHours0 tz t = local_day tz t * DAY_MS - tz"

definition setDate_plus :: "int \<Rightarrow> int \<Rightarrow> int" where
  \<comment> \<open>\<open>d.setDate(today.getDate() + n)\<close> for a \<open>d\<close> on the same day as \<open>today\<close>\<close>
  "setDate_plus n t = t + n * DAY_MS"

datatype datepicker = NoBlock | Picker "int option"

definition date_not_future_error :: "int \<Rightarrow> int \<Rightarrow> datepicker \<Rightarrow> js_error + bool" where
  \<comment> \<open>The check shared by \<open>arrival_date\<close>, \<open>notification_date\<close> and \<open>completion_date\<close>,
      for a status that asks for it. With no date selected the date is invalid, and the
      \<open>selectedDate.toISOString()\<close> of the logging that precedes the comparison throws.\<close>
  "date_not_future_error tz tomorrow p = (case p of
      NoBlock \<Rightarrow> Inr False
    | Picker None \<Rightarrow> Inl (JsRangeError ''Invalid time value'')
    | Picker (Some day) \<Rightarrow> Inr (setHours0 tz (day * DAY_MS - tz) \<ge> tomorrow))"

record date_values =
  arrival_date :: datepicker
  notification_date :: datepicker
  completion_date :: datepicker
  estimated_arrival :: datepicker

definition required_fields_date_errors ::
  "int \<Rightarrow> int \<Rightarrow> string \<Rightarrow> date_values \<Rightarrow> js_error + (string \<times> string) list" where
  \<comment> \<open>\<open>dateValidationErrors\<close> of \<open>required_fields_submission\<close>, or the exception that
      ends the handler before it acknowledges.\<close>
  "required_fields_date_errors tz t newStatus vals =
     (let today = setHours0 tz t;
          tomorrow = setHours0 tz (setDate_plus 1 t)
      in
      case (if newStatus = ''RECEIVED''
            then date_not_future_error tz tomorrow (arrival_date vals) else Inr False) of
        Inl thrown \<Rightarrow> Inl thrown
      | Inr arrival_late \<Rightarrow>
      (case (if newStatus = ''NOTIFIED''
             then date_not_future_error tz tomorrow (notification_date vals) else Inr False) of
        Inl thrown \<Rightarrow> Inl thrown
      | Inr notification_late \<Rightarrow>
      (case (if newStatus = ''COMPLETED''
             then date_not_future_error tz tomorrow (completion_date vals) else Inr False) of
        Inl thrown \<Rightarrow> Inl thrown
      | Inr completion_late \<Rightarrow>
        Inr ((if arrival_late
              then [(''arrival_date'', ''Arrival date must be today or earlier, not a future date'')]
              else [])
           @ (if notification_late
              then [(''notification_date'',
                     ''Notification date must be today or earlier, not a future date'')]
              else [])
           @ (if completion_late
              then [(''completion_date'',
                     ''Completion date must be today or earlier, not a future date'')]
              else [])
           @ (case estimated_arrival vals of
                NoBlock \<Rightarrow> []
              | Picker sel \<Rightarrow>
                  (let selectedDate =
                         setHours0 tz (case sel of None \<Rightarrow> 0 | Some day \<Rightarrow> day * DAY_MS)
                   in if selectedDate < tomorrow
                      then [(''estimated_arrival'',
                             ''Estimated arrival date must be tomorrow or later'')]
                      else []))))))"

definition mark_as_ordered_date_errors :: "int \<Rightarrow> int \<Rightarrow> datepicker \<Rightarrow> (string \<times> string) list" where
  \<comment> \<open>The \<open>errors\<close> that \<open>mark_as_ordered_submission\<close> acknowledges with for the date.\<close>
  "mark_as_ordered_date_errors tz t p = (case p of
      Picker (Some day) \<Rightarrow>
        (let selectedDate = setHours0 tz (day * DAY_MS);
             today = setHours0 tz t;
             tomorrow = setHours0 tz (setDate_plus 0 t)
         in if selectedDate < tomorrow
            then [(''estimated_arrival'', ''Estimated arrival date must be tomorrow or later'')]
            else [])
    | _ \<Rightarrow> [])"

section \<open>Vocabulary of the properties\<close>

text \<open>
  The definitions of this section are not code of the repository: they name what the
  properties below speak of, in the words of the specification.
\<close>

definition isbn13_check_digit :: "int list \<Rightarrow> int" where
  \<comment> \<open>Weights alternating 1, 3 over the first twelve digits; the check digit is
      \<open>(10 - sum mod 10) mod 10\<close>.\<close>
  "isbn13_check_digit ds =
     (10 - (\<Sum>i\<leftarrow>[0..<12]. (if even i then 1 else 3) * ds ! i) mod 10) mod 10"

text \<open>
  The characters of the specification's validators, spelt out: the ten decimal digits and
  their values, the space and the hyphen, and the white-space characters (the class
  \<open>\s\<close> of a regular expression, among the characters below 256).
\<close>

definition decimal_digit :: "char \<Rightarrow> bool" where
  "decimal_digit c = (c \<in> set ''0123456789'')"

definition decimal_value :: "char \<Rightarrow> int" where
  \<comment> \<open>the position of the digit in \<open>0123456789\<close>\<close>
  "decimal_value c = int (length (takeWhile (\<lambda>d. d \<noteq> c) ''0123456789''))"

definition without_spaces_and_hyphens :: "string \<Rightarrow> string" where
  "without_spaces_and_hyphens s = filter (\<lambda>c. c \<noteq> CHR '' '' \<and> c \<noteq> CHR ''-'') s"









definition allowed_transitions :: "string \<Rightarrow> string \<Rightarrow> string list" where
  \<comment> \<open>The entry \<open>statusTransitions[status]\<close> of a type's own table; empty when the type or
      the entry is not there.\<close>
  "allowed_transitions requestType status = (case map_of REQUEST_TYPES requestType of
      None \<Rightarrow> []
    | Some cfg \<Rightarrow> (case map_of (statusTransitions cfg) status of None \<Rightarrow> [] | Some ts \<Rightarrow> ts))"

definition creation_fields :: "string \<Rightarrow> string list" where
  \<comment> \<open>The fields a request of a type needs at creation.\<close>
  "creation_fields requestType = (case map_of REQUIRED_FIELDS requestType of
      None \<Rightarrow> [] | Some fs \<Rightarrow> fs)"

definition status_fields :: "string \<Rightarrow> string \<Rightarrow> string list" where
  \<comment> \<open>The fields a type needs for a transition into a status.\<close>
  "status_fields requestType status = (case map_of REQUEST_TYPES requestType of
      None \<Rightarrow> []
    | Some cfg \<Rightarrow> (case map_of (requiredFieldsPerStatus cfg) status of None \<Rightarrow> [] | Some fs \<Rightarrow> fs))"

definition field_required_message :: "string \<Rightarrow> string \<Rightarrow> string \<Rightarrow> string" where
  \<comment> \<open>The message of the error \<open>validateRequiredFields\<close> throws for a field.\<close>
  "field_required_message field requestType newStatus =
     ''Field '' @ [CHR 0x22] @ field @ [CHR 0x22] @ '' is required for '' @ requestType
       @ '' to transition to '' @ newStatus"

definition status_change_entry ::
  "env \<Rightarrow> string \<Rightarrow> string \<Rightarrow> string \<Rightarrow> string \<Rightarrow> string option \<Rightarrow> bag \<Rightarrow> event" where
  \<comment> \<open>The event that step 3 of \<open>updateRequestStatus\<close> hands to \<open>logEvent\<close>, as stored.\<close>
  "status_change_entry e requestType requestId currentStatus newStatus userId additionalFields =
     \<lparr>ev_requestId = requestId, ev_requestType = requestType, ev_action = ''STATUS_CHANGE'',
      ev_previousStatus = currentStatus, ev_newStatus = newStatus, ev_timestamp = now e,
      ev_userId = or_else userId ''system'', ev_additionalMetadata = additionalFields\<rparr>"

definition replay_status :: "event list \<Rightarrow> string option" where
  \<comment> \<open>The status as a fold over a request's events: an event that carries a new status
      sets it (\<open>FIELDS_ADDED\<close> carries none).\<close>
  "replay_status history =
     fold (\<lambda>ev acc. if ev_newStatus ev \<noteq> [] then Some (ev_newStatus ev) else acc) history None"

definition status_matches_history :: "store \<Rightarrow> string \<Rightarrow> bool" where
  \<comment> \<open>The stored status of a request is what replaying its events in timestamp order
      gives.\<close>
  "status_matches_history st requestId =
     (stored_status st requestId
        = map_option JString (replay_status (getRequestHistory st requestId)))"

text \<open>
  A sequence of calls of \<open>updateRequestStatus\<close> on one request, each run to its end before
  the next starts; and the two steps of one call that passed its validations, the event
  append and the store write, which the source separates by an \<open>await\<close>.
\<close>

record transition_call =
  tc_env :: env
  tc_requestType :: string
  tc_currentStatus :: string
  tc_newStatus :: string
  tc_userId :: "string option"
  tc_additionalFields :: bag

fun run_calls :: "store \<Rightarrow> string \<Rightarrow> transition_call list \<Rightarrow> outcome list \<times> store" where
  "run_calls st requestId [] = ([], st)"
| "run_calls st requestId (c # cs) =
     (let r = updateRequestStatus (tc_env c) st (tc_requestType c) requestId (tc_currentStatus c)
                (tc_newStatus c) (tc_userId c) (tc_additionalFields c);
          rs = run_calls (snd r) requestId cs
      in (fst r # fst rs, snd rs))"

fun failed :: "outcome \<Rightarrow> bool" where
  "failed (Failure m) = True"
| "failed (Success m) = False"

definition asserts_terminal :: "transition_call \<Rightarrow> bool" where
  "asserts_terminal c = (tc_currentStatus c = ''COMPLETED'' \<or> tc_currentStatus c = ''CANCELLED'')"

fun passes_stored_status :: "store \<Rightarrow> string \<Rightarrow> transition_call list \<Rightarrow> bool" where
  \<comment> \<open>each call passes as \<open>currentStatus\<close> the status stored when the call is made\<close>
  "passes_stored_status st requestId [] = True"
| "passes_stored_status st requestId (c # cs) =
     (stored_status st requestId = Some (JString (tc_currentStatus c))
      \<and> passes_stored_status
          (snd (updateRequestStatus (tc_env c) st (tc_requestType c) requestId
                  (tc_currentStatus c) (tc_newStatus c) (tc_userId c) (tc_additionalFields c)))
          requestId cs)"

definition log_status_change ::
  "env \<Rightarrow> store \<Rightarrow> string \<Rightarrow> string \<Rightarrow> string \<Rightarrow> string \<Rightarrow> string option \<Rightarrow> bag \<Rightarrow> store" where
  "log_status_change e st requestType requestId currentStatus newStatus userId additionalFields =
     snd (logEvent e st
            \<lparr>ed_requestType = requestType, ed_requestId = requestId,
             ed_action = ''STATUS_CHANGE'', ed_previousStatus = Some currentStatus,
             ed_newStatus = Some newStatus, ed_userId = userId,
             ed_additionalMetadata = Some additionalFields\<rparr>)"

definition only_estimated_arrival :: "int \<Rightarrow> date_values" where
  \<comment> \<open>A form whose only date picker is \<open>estimated_arrival\<close>, set to a day.\<close>
  "only_estimated_arrival day =
     \<lparr>arrival_date = NoBlock, notification_date = NoBlock, completion_date = NoBlock,
      estimated_arrival = Picker (Some day)\<rparr>"

definition only_arrival_date :: "int \<Rightarrow> date_values" where
  \<comment> \<open>A form whose only date picker is \<open>arrival_date\<close>, set to a day.\<close>
  "only_arrival_date day =
     \<lparr>arrival_date = Picker (Some day), notification_date = NoBlock, completion_date = NoBlock,
      estimated_arrival = NoBlock\<rparr>"

text \<open>A concrete environment and store, for the instances of the theorems.\<close>

definition example_env :: env where
  "example_env = \<lparr>now = 1000, events_insert_ok = True, events_file_ok = True,
     requests_update_ok = True, requests_log_ok = True, requests_insert_ok = True,
     db_error = ''connection refused''\<rparr>"

definition example_store :: store where
  "example_store =
     \<lparr>requests = [[''requestId'' \<mapsto> JString ''REQ-1'', ''type'' \<mapsto> JString ''book_hold'',
                    ''status'' \<mapsto> JString ''NEW'']],
      events = [\<lparr>ev_requestId = ''REQ-1'', ev_requestType = ''book_hold'',
                 ev_action = ''REQUEST_CREATED'', ev_previousStatus = [], ev_newStatus = ''NEW'',
                 ev_timestamp = 500, ev_userId = ''system'', ev_additionalMetadata = Map.empty\<rparr>],
      event_log_files = (\<lambda>t. []),
      request_log_files = Map.empty\<rparr>"

definition paid_fields :: bag where
  "paid_fields = [''payment_method'' \<mapsto> JString ''cash'', ''order_number'' \<mapsto> JString ''12345'']"

definition paid_fields_with_status :: bag where
  "paid_fields_with_status = paid_fields(''status'' \<mapsto> JString ''NEW'')"

definition completed_store :: store where
  "completed_store =
     \<lparr>requests = [[''requestId'' \<mapsto> JString ''REQ-1'', ''type'' \<mapsto> JString ''book_hold'',
                    ''status'' \<mapsto> JString ''COMPLETED'']],
      events = [],
      event_log_files = (\<lambda>t. []),
      request_log_files = Map.empty\<rparr>"

definition example_call :: "string \<Rightarrow> string \<Rightarrow> transition_call" where
  "example_call currentStatus newStatus =
     \<lparr>tc_env = example_env, tc_requestType = ''book_hold'', tc_currentStatus = currentStatus,
      tc_newStatus = newStatus, tc_userId = None, tc_additionalFields = Map.empty\<rparr>"

definition paid_store :: store where
  "paid_store =
     \<lparr>requests = [[''requestId'' \<mapsto> JString ''REQ-1'', ''type'' \<mapsto> JString ''book_hold'',
                    ''status'' \<mapsto> JString ''PAID'']],
      events = [\<lparr>ev_requestId = ''REQ-1'', ev_requestType = ''book_hold'',
                 ev_action = ''REQUEST_CREATED'', ev_previousStatus = [], ev_newStatus = ''NEW'',
                 ev_timestamp = 500, ev_userId = ''system'', ev_additionalMetadata = Map.empty\<rparr>,
                \<lparr>ev_requestId = ''REQ-1'', ev_requestType = ''book_hold'',
                 ev_action = ''STATUS_CHANGE'', ev_previousStatus = ''NEW'', ev_newStatus = ''PAID'',
                 ev_timestamp = 600, ev_userId = ''system'', ev_additionalMetadata = Map.empty\<rparr>],
      event_log_files = (\<lambda>t. []),
      request_log_files = Map.empty\<rparr>"

definition completion_fields :: bag where
  "completion_fields = [''completion_date'' \<mapsto> JString ''2024-10-04'']"

definition later_env :: env where
  "later_env = example_env\<lparr>now := 1001\<rparr>"

definition interleaved_calls :: "outcome \<times> outcome \<times> store" where
  "interleaved_calls =
     (let s1 = log_status_change example_env paid_store ''book_hold'' ''REQ-1'' ''PAID''
                 ''COMPLETED'' None completion_fields;
          s2 = log_status_change later_env s1 ''book_hold'' ''REQ-1'' ''PAID'' ''CANCELLED'' None
                 Map.empty;
          r2 = update_document later_env s2 ''book_hold'' ''REQ-1'' ''PAID'' ''CANCELLED'' Map.empty;
          r1 = update_document example_env (snd r2) ''book_hold'' ''REQ-1'' ''PAID'' ''COMPLETED''
                 completion_fields
      in (fst r1, fst r2, snd r1))"

section \<open>Properties of the validators\<close>

lemma is_digit_value: "is_digit c \<Longrightarrow> 0 \<le> digit_value c \<and> digit_value c \<le> 9"
  by (simp add: is_digit_def digit_value_def)

lemma parseInt_digit:
  "list_all is_digit s \<Longrightarrow> i < length s \<Longrightarrow> parseInt (char_at s i) = Some (digit_value (s ! i))"
  by (simp add: parseInt_def char_at_def list_all_length)

lemma fold_num_add:
  "(\<And>i. i \<in> set xs \<Longrightarrow> f i = Some (g i)) \<Longrightarrow>
   fold (\<lambda>i acc. num_add acc (f i)) xs (Some a) = Some (a + sum_list (map g xs))"
  by (induction xs arbitrary: a) (simp_all add: num_add_def add.assoc)

lemma num_rem_nonneg: "0 \<le> x \<Longrightarrow> 0 < y \<Longrightarrow> num_rem (Some x) (Some y) = Some (x mod y)"
  by (cases "x = 0") (simp_all add: num_rem_def)

lemma weighted_sum_nonneg:
  assumes "list_all is_digit s" "n \<le> length s" "\<And>i. 0 \<le> w i"
  shows "0 \<le> (\<Sum>i\<leftarrow>[0..<n]. w i * digit_value (s ! i))"
proof (rule sum_list_nonneg)
  fix x assume "x \<in> set (map (\<lambda>i. w i * digit_value (s ! i)) [0..<n])"
  then obtain i where i: "i < n" "x = w i * digit_value (s ! i)" by auto
  with assms have "is_digit (s ! i)" by (simp add: list_all_length)
  then have "0 \<le> digit_value (s ! i)" using is_digit_value by blast
  with i assms(3) show "0 \<le> x" by simp
qed

lemma isValidISBN13_digits:
  assumes "list_all is_digit s" "length s = 13"
  shows "isValidISBN13 s \<longleftrightarrow> digit_value (s ! 12) = isbn13_check_digit (map digit_value s)"
proof -
  let ?w = "\<lambda>i::nat. if i mod 2 = 0 then (1::int) else 3"
  let ?S = "\<Sum>i\<leftarrow>[0..<12]. ?w i * digit_value (s ! i)"
  have f: "fold (\<lambda>i acc. num_add acc (num_mul (Some (?w i)) (parseInt (char_at s i))))
             [0..<12] (Some 0) = Some (0 + ?S)"
    by (rule fold_num_add) (use assms in \<open>simp add: parseInt_digit num_mul_def\<close>)
  have nn: "0 \<le> ?S"
    by (rule weighted_sum_nonneg[OF assms(1)]) (use assms in simp_all)
  have c: "0 \<le> 10 - ?S mod 10" 
    using pos_mod_bound[of 10 ?S] by linarith
  have m: "map (\<lambda>i. ?w i * map digit_value s ! i) [0..<12] = map (\<lambda>i. ?w i * digit_value (s ! i)) [0..<12]"
    using assms by simp
  have "isbn13_check_digit (map digit_value s) = (10 - ?S mod 10) mod 10"
    unfolding isbn13_check_digit_def even_iff_mod_2_eq_zero using m by (simp only:)
  moreover have "isValidISBN13 s \<longleftrightarrow> (10 - ?S mod 10) mod 10 = digit_value (s ! 12)"
    unfolding isValidISBN13_def Let_def f
    using nn c assms by (simp add: num_rem_nonneg num_sub_def num_strict_eq_def parseInt_digit)
  ultimately show ?thesis by auto
qed

text \<open>
  The answer of \<open>validateISBN\<close> in terms of its own cleaned input.
\<close>

lemma validateISBN_cleaned_thirteen_digits:
  assumes "all_digits (remove_hyphens_and_spaces raw)"
      and "length (remove_hyphens_and_spaces raw) = 13"
  shows "validateISBN raw =
     Inr (let c = remove_hyphens_and_spaces raw in
          if \<not> (take 3 c = ''978'' \<or> take 3 c = ''979'')
          then Invalid ''ISBN-13 must start with 978 or 979''
          else if digit_value (c ! 12) = isbn13_check_digit (map digit_value c) then Valid
          else Invalid ''Invalid ISBN-13 checksum'')"
proof -
  let ?c = "remove_hyphens_and_spaces raw"
  have sp: "\<not> is_space x" if "x \<in> set ?c" for x
    using that by (simp add: remove_hyphens_and_spaces_def)
  have ne: "?c \<noteq> []" using assms(2) by auto
  have "js_trim ?c = ?c"
  proof -
    have "dropWhile is_space ?c = ?c" using ne sp by (cases ?c) auto
    moreover have "dropWhile is_space (rev ?c) = rev ?c"
      using ne sp by (cases "rev ?c") (auto dest: arg_cong[where f=set] simp del: rev_is_Nil_conv)
    ultimately show ?thesis by (simp add: js_trim_def)
  qed
  with ne have t: "js_trim ?c \<noteq> []" by simp
  have d: "list_all is_digit ?c" using assms(1) by (simp add: all_digits_def)
  show ?thesis
    unfolding validateISBN_def Let_def
    using t assms isValidISBN13_digits[OF d assms(2)] by simp
qed

text \<open>
  The characters of the code and those of the specification.
\<close>

lemma mem_by_code: "c \<in> set ds \<longleftrightarrow> (of_char c :: nat) \<in> set (map of_char ds)"
  by (simp add: inj_image_mem_iff[OF inj_of_char])

lemma decimal_digit_is_digit: "decimal_digit c \<longleftrightarrow> is_digit c"
  unfolding decimal_digit_def is_digit_def mem_by_code[of c "''0123456789''"]
  by simp arith


lemma decimal_value_digit_value: "decimal_digit c \<Longrightarrow> decimal_value c = digit_value c"
  unfolding decimal_digit_def
  by (elim disjE | simp only: set_simps insert_iff empty_iff)+
     (simp_all add: decimal_value_def digit_value_def)

lemma decimal_digit_not_separator:
  "decimal_digit c \<Longrightarrow> \<not> is_space c \<and> c \<noteq> CHR ''-'' \<and> c \<noteq> CHR '' ''"
  unfolding decimal_digit_is_digit by (auto simp add: is_digit_def is_space_def)

lemma list_all_decimal_digit: "list_all decimal_digit s = list_all is_digit s"
  by (induction s) (simp_all add: decimal_digit_is_digit)


lemma remove_hyphens_and_spaces_of_digits:
  assumes "list_all decimal_digit (without_spaces_and_hyphens raw)"
  shows "remove_hyphens_and_spaces raw = without_spaces_and_hyphens raw"
  unfolding remove_hyphens_and_spaces_def without_spaces_and_hyphens_def
proof (rule filter_cong[OF refl])
  fix x assume x: "x \<in> set raw"
  show "(\<not> (x = CHR ''-'' \<or> is_space x)) = (x \<noteq> CHR '' '' \<and> x \<noteq> CHR ''-'')"
  proof (cases "x = CHR '' '' \<or> x = CHR ''-''")
    case True
    then show ?thesis by (auto simp add: is_space_def)
  next
    case False
    with x assms have "decimal_digit x"
      by (simp add: without_spaces_and_hyphens_def list_all_iff)
    with False show ?thesis using decimal_digit_not_separator by blast
  qed
qed

text \<open>
  C6. When the input, with its spaces and hyphens removed, is thirteen decimal digits,
  \<open>validateISBN\<close> answers: "ISBN-13 must start with 978 or 979" unless the digits start
  with 978 or 979; otherwise "Invalid ISBN-13 checksum" unless the thirteenth digit is the
  check digit of the first twelve; otherwise valid. The spaces and hyphens may stand
  anywhere in the input.
\<close>

theorem validateISBN_thirteen_digits:
  assumes "list_all decimal_digit (without_spaces_and_hyphens raw)"
      and "length (without_spaces_and_hyphens raw) = 13"
  shows "validateISBN raw =
     Inr (let c = without_spaces_and_hyphens raw in
          if \<not> (take 3 c = ''978'' \<or> take 3 c = ''979'')
          then Invalid ''ISBN-13 must start with 978 or 979''
          else if decimal_value (c ! 12) = isbn13_check_digit (map decimal_value c) then Valid
          else Invalid ''Invalid ISBN-13 checksum'')"
proof -
  let ?c = "without_spaces_and_hyphens raw"
  have eq: "remove_hyphens_and_spaces raw = ?c"
    using assms(1) by (rule remove_hyphens_and_spaces_of_digits)
  have ne: "?c \<noteq> []" using assms(2) by auto
  have d: "all_digits (remove_hyphens_and_spaces raw)"
    unfolding eq all_digits_def using ne assms(1) by (simp add: list_all_decimal_digit)
  have l: "length (remove_hyphens_and_spaces raw) = 13" unfolding eq by (fact assms(2))
  have v: "map digit_value ?c = map decimal_value ?c"
    using assms(1) by (simp add: list_all_iff decimal_value_digit_value)
  have "decimal_digit (?c ! 12)"
    using assms by (simp add: list_all_length)
  then have v12: "digit_value (?c ! 12) = decimal_value (?c ! 12)"
    by (simp add: decimal_value_digit_value)
  from validateISBN_cleaned_thirteen_digits[OF d l] show ?thesis
    unfolding Let_def eq v v12 .
qed

theorem validateISBN_thirteen_digits_witness:
  "validateISBN ''9780306406157'' = Inr Valid
   \<and> validateISBN ''9780306406158'' = Inr (Invalid ''Invalid ISBN-13 checksum'')
   \<and> validateISBN ''978-0-306-40615-7'' = Inr Valid
   \<and> validateISBN ''978-0-306-40615-8'' = Inr (Invalid ''Invalid ISBN-13 checksum'')
   \<and> validateISBN ''978 0306 40615 7'' = Inr Valid
   \<and> validateISBN '' 978-0 306-40615 8 '' = Inr (Invalid ''Invalid ISBN-13 checksum'')
   \<and> validateISBN ''123-4567890 123'' = Inr (Invalid ''ISBN-13 must start with 978 or 979'')"
proof -
  have r: "without_spaces_and_hyphens ''9780306406157'' = ''9780306406157''"
      "without_spaces_and_hyphens ''9780306406158'' = ''9780306406158''"
      "without_spaces_and_hyphens ''978-0-306-40615-7'' = ''9780306406157''"
      "without_spaces_and_hyphens ''978-0-306-40615-8'' = ''9780306406158''"
      "without_spaces_and_hyphens ''978 0306 40615 7'' = ''9780306406157''"
      "without_spaces_and_hyphens '' 978-0 306-40615 8 '' = ''9780306406158''"
      "without_spaces_and_hyphens ''123-4567890 123'' = ''1234567890123''"
    by (simp_all add: without_spaces_and_hyphens_def)
  have d: "list_all decimal_digit ''9780306406157''" "list_all decimal_digit ''9780306406158''"
      "list_all decimal_digit ''1234567890123''"
    by (simp_all add: decimal_digit_def)
  have k: "decimal_value (''9780306406157'' ! 12) = isbn13_check_digit (map decimal_value ''9780306406157'')"
      "decimal_value (''9780306406158'' ! 12) \<noteq> isbn13_check_digit (map decimal_value ''9780306406158'')"
    by code_simp+
  show ?thesis
    using validateISBN_thirteen_digits[of "''9780306406157''"]
      validateISBN_thirteen_digits[of "''9780306406158''"]
      validateISBN_thirteen_digits[of "''978-0-306-40615-7''"]
      validateISBN_thirteen_digits[of "''978-0-306-40615-8''"]
      validateISBN_thirteen_digits[of "''978 0306 40615 7''"]
      validateISBN_thirteen_digits[of "'' 978-0 306-40615 8 ''"]
      validateISBN_thirteen_digits[of "''123-4567890 123''"]
    unfolding r Let_def using d k by simp
qed




text \<open>
  An input of digits with a final \<open>X\<close> is not all digits, so \<open>validateISBN\<close> takes it
  for a custom SKU and never reaches \<open>isValidISBN10\<close>, the only place where \<open>X\<close> counts
  as ten.
\<close>

lemma dropWhile_keeps:
  "x \<in> set xs \<Longrightarrow> \<not> P x \<Longrightarrow> x \<in> set (dropWhile P xs)"
  by (induction xs) auto

lemma js_trim_not_empty:
  assumes "x \<in> set s" "\<not> is_space x"
  shows "js_trim s \<noteq> []"
proof -
  have "x \<in> set (rev (dropWhile is_space s))"
    using dropWhile_keeps[of x s is_space] assms by simp
  then have "x \<in> set (dropWhile is_space (rev (dropWhile is_space s)))"
    using dropWhile_keeps[of x "rev (dropWhile is_space s)" is_space] assms(2) by simp
  then have "x \<in> set (js_trim s)" by (simp add: js_trim_def)
  then show ?thesis by auto
qed

lemma validateISBN_nine_digits_X:
  assumes "remove_hyphens_and_spaces raw = ds @ ''X''"
  shows "validateISBN raw = Inr Valid"
proof -
  let ?c = "remove_hyphens_and_spaces raw"
  have "CHR ''X'' \<in> set ?c" "\<not> is_space (CHR ''X'')"
    using assms by (simp_all add: is_space_def)
  then have "js_trim ?c \<noteq> []" by (rule js_trim_not_empty)
  moreover have "\<not> all_digits ?c" using assms by (simp add: all_digits_def is_digit_def)
  ultimately show ?thesis by (simp add: validateISBN_def Let_def)
qed

text \<open>
  C5. \<open>000000000X\<close> is nine digits and an \<open>X\<close>; its weighted sum is 10, which 11 does
  not divide, and \<open>isValidISBN10\<close> says so; \<open>validateISBN\<close> accepts it all the same, as
  it accepts \<open>123456789X\<close>, whose checksum is right.
\<close>

theorem validateISBN_X_checksum_not_enforced:
  "validateISBN ''000000000X'' = Inr Valid \<and> isValidISBN10 ''000000000X'' = Inr False
   \<and> validateISBN ''123456789X'' = Inr Valid"
  by code_simp

section \<open>Properties of the transition engine\<close>

lemma REQUEST_TYPES_constructed: "REQUEST_TYPES = CONSTRUCTED_REQUEST_TYPES"
  by (simp add: REQUEST_TYPES_def CONSTRUCTED_REQUEST_TYPES_def)

lemma registered_transitions:
  "map_of REQUEST_TYPES T = Some cfg \<Longrightarrow>
   statusTransitions cfg = IMPROVED_TRANSITIONS \<or> statusTransitions cfg = BOOK_HOLD_TRANSITIONS"
  unfolding REQUEST_TYPES_constructed CONSTRUCTED_REQUEST_TYPES_def
  by (auto split: if_splits)

lemma validateStatusTransition_registered:
  assumes "map_of REQUEST_TYPES T = Some cfg"
  shows "validateStatusTransition T A B =
     (if A \<notin> set object_prototype_keys \<or> map_of (statusTransitions cfg) A \<noteq> None
      then (if B \<in> set (allowed_transitions T A) then Inr True
            else Inl (JsError (''Invalid status transition from '' @ A @ '' to '' @ B
                               @ '' for '' @ T)))
      else Inl (JsTypeError ''validTransitions.includes is not a function''))"
  using assms
  by (auto simp add: validateStatusTransition_def get_property_def allowed_transitions_def
      split: option.splits)

lemma proto_not_status:
  "map_of IMPROVED_TRANSITIONS A = Some ts \<Longrightarrow> A \<notin> set object_prototype_keys"
  "map_of BOOK_HOLD_TRANSITIONS A = Some ts \<Longrightarrow> A \<notin> set object_prototype_keys"
  by (auto simp add: IMPROVED_TRANSITIONS_def BOOK_HOLD_TRANSITIONS_def object_prototype_keys_def
      split: if_splits)

lemma validateStatusTransition_rejects:
  assumes "map_of REQUEST_TYPES T = Some cfg" "B \<notin> set (allowed_transitions T A)"
  shows "validateStatusTransition T A B =
     Inl (if A \<in> set object_prototype_keys
          then JsTypeError ''validTransitions.includes is not a function''
          else JsError (''Invalid status transition from '' @ A @ '' to '' @ B @ '' for '' @ T))"
proof (cases "map_of (statusTransitions cfg) A")
  case None
  then show ?thesis using assms by (simp add: validateStatusTransition_registered)
next
  case (Some ts)
  then have "A \<notin> set object_prototype_keys"
    using registered_transitions[OF assms(1)] proto_not_status by metis
  then show ?thesis using assms by (simp add: validateStatusTransition_registered)
qed

text \<open>
  C1. For a registered request type, a call of \<open>updateRequestStatus\<close> whose new status is
  not in the table's entry for its current status returns the invalid-transition error
  and leaves the whole state as it was: no document is written and no event appended.
  (A current status that is the name of a member of \<open>Object.prototype\<close> is rejected as
  well, with the message of the \<open>TypeError\<close> the lookup ends in.)
\<close>

theorem invalid_transition_rejected:
  assumes "map_of REQUEST_TYPES T \<noteq> None" 
      and "B \<notin> set (allowed_transitions T A)"
  shows "updateRequestStatus e st T rid A B uid extra =
           (Failure (if A \<in> set object_prototype_keys
                     then ''validTransitions.includes is not a function''
                     else ''Invalid status transition from '' @ A @ '' to '' @ B @ '' for '' @ T),
            st)"
proof -
  from assms(1) obtain cfg where "map_of REQUEST_TYPES T = Some cfg" by auto
  from validateStatusTransition_rejects[OF this assms(2)]
  show ?thesis
    by (simp add: updateRequestStatus_def)
qed

theorem invalid_transition_rejected_witness:
  "updateRequestStatus example_env example_store ''book_hold'' ''REQ-1'' ''NEW'' ''ORDERED''
      None Map.empty
   = (Failure ''Invalid status transition from NEW to ORDERED for book_hold'', example_store)"
proof -
  have a: "map_of REQUEST_TYPES ''book_hold'' \<noteq> None"
    by (simp add: REQUEST_TYPES_constructed CONSTRUCTED_REQUEST_TYPES_def)
  have b: "''ORDERED'' \<notin> set (allowed_transitions ''book_hold'' ''NEW'')"
    by (simp add: allowed_transitions_def REQUEST_TYPES_constructed CONSTRUCTED_REQUEST_TYPES_def
        BOOK_HOLD_TRANSITIONS_def)
  show ?thesis
    using invalid_transition_rejected[OF a b, of example_env example_store "''REQ-1''" None Map.empty]
    by (simp add: object_prototype_keys_def)
qed

lemma terminal_entries:
  assumes "map_of REQUEST_TYPES T = Some cfg"
  shows "map_of (statusTransitions cfg) ''COMPLETED'' = Some []"
    and "map_of (statusTransitions cfg) ''CANCELLED'' = Some []"
  using registered_transitions[OF assms]
  by (auto simp add: IMPROVED_TRANSITIONS_def BOOK_HOLD_TRANSITIONS_def)

lemma allowed_transitions_terminal:
  "allowed_transitions T ''COMPLETED'' = []" "allowed_transitions T ''CANCELLED'' = []"
  by (auto simp add: allowed_transitions_def terminal_entries split: option.splits)

lemma validateStatusTransition_throws_unregistered:
  "map_of REQUEST_TYPES T = None \<Longrightarrow> \<exists>err. validateStatusTransition T A B = Inl err"
  by (simp add: validateStatusTransition_def get_property_def)

lemma validateStatusTransition_terminal:
  assumes "A = ''COMPLETED'' \<or> A = ''CANCELLED''"
  shows "\<exists>err. validateStatusTransition T A B = Inl err"
proof (cases "map_of REQUEST_TYPES T")
  case None
  then show ?thesis by (rule validateStatusTransition_throws_unregistered)
next
  case (Some cfg)
  have "B \<notin> set (allowed_transitions T A)"
    using assms allowed_transitions_terminal by auto
  from validateStatusTransition_rejects[OF Some this] show ?thesis by blast
qed

lemma updateRequestStatus_invalid:
  "validateStatusTransition T A B = Inl err \<Longrightarrow>
   updateRequestStatus e st T rid A B uid extra = (Failure (message err), st)"
  by (simp add: updateRequestStatus_def)

lemma run_calls_terminal:
  "list_all asserts_terminal calls \<Longrightarrow>
   snd (run_calls st rid calls) = st \<and> list_all failed (fst (run_calls st rid calls))"
proof (induction calls)
  case Nil
  then show ?case by simp
next
  case (Cons c cs)
  from Cons.prems have t: "tc_currentStatus c = ''COMPLETED'' \<or> tc_currentStatus c = ''CANCELLED''"
    by (simp add: asserts_terminal_def)
  obtain err where "validateStatusTransition (tc_requestType c) (tc_currentStatus c) (tc_newStatus c)
      = Inl err"
    using validateStatusTransition_terminal[OF t] by blast
  then have "updateRequestStatus (tc_env c) st (tc_requestType c) rid (tc_currentStatus c)
                (tc_newStatus c) (tc_userId c) (tc_additionalFields c) = (Failure (message err), st)"
    by (rule updateRequestStatus_invalid)
  with Cons show ?case by (simp add: Let_def)
qed

lemma passes_stored_status_terminal:
  assumes "stored_status st rid = Some (JString ''COMPLETED'')
           \<or> stored_status st rid = Some (JString ''CANCELLED'')"
      and "passes_stored_status st rid calls"
  shows "list_all asserts_terminal calls"
  using assms(2)
proof (induction calls)
  case Nil
  then show ?case by simp
next
  case (Cons c cs)
  from Cons.prems assms(1)
  have t: "tc_currentStatus c = ''COMPLETED'' \<or> tc_currentStatus c = ''CANCELLED''"
    by auto
  obtain err where "validateStatusTransition (tc_requestType c) (tc_currentStatus c) (tc_newStatus c)
      = Inl err"
    using validateStatusTransition_terminal[OF t] by blast
  then have "updateRequestStatus (tc_env c) st (tc_requestType c) rid (tc_currentStatus c)
                (tc_newStatus c) (tc_userId c) (tc_additionalFields c) = (Failure (message err), st)"
    by (rule updateRequestStatus_invalid)
  with Cons t show ?case by (simp add: asserts_terminal_def)
qed

text \<open>
  C2 (as amended). For every request type, the allowed transitions out of \<open>COMPLETED\<close>
  and out of \<open>CANCELLED\<close> are none, and a call that passes one of the two as
  \<open>currentStatus\<close> fails for every new status, leaving the state as it was; so does every
  call of a sequence of such calls. The engine checks the status the caller passes and
  never reads the stored one: when the stored status is \<open>COMPLETED\<close> or \<open>CANCELLED\<close>
  and each call of a sequence passes the status stored at that time, every call fails
  and the state is left as it was.
\<close>

theorem terminal_status_final:
  "allowed_transitions T ''COMPLETED'' = [] \<and> allowed_transitions T ''CANCELLED'' = []
   \<and> (\<exists>err. validateStatusTransition T ''COMPLETED'' B = Inl err
          \<and> updateRequestStatus e st T rid ''COMPLETED'' B uid extra = (Failure (message err), st))
   \<and> (\<exists>err. validateStatusTransition T ''CANCELLED'' B = Inl err
          \<and> updateRequestStatus e st T rid ''CANCELLED'' B uid extra = (Failure (message err), st))
   \<and> (list_all asserts_terminal calls \<longrightarrow>
         snd (run_calls st rid calls) = st \<and> list_all failed (fst (run_calls st rid calls)))
   \<and> ((stored_status st rid = Some (JString ''COMPLETED'')
          \<or> stored_status st rid = Some (JString ''CANCELLED''))
        \<and> passes_stored_status st rid calls \<longrightarrow>
         snd (run_calls st rid calls) = st \<and> list_all failed (fst (run_calls st rid calls)))"
proof -
  obtain e1 where e1: "validateStatusTransition T ''COMPLETED'' B = Inl e1"
    using validateStatusTransition_terminal[of "''COMPLETED''"] by blast
  obtain e2 where e2: "validateStatusTransition T ''CANCELLED'' B = Inl e2"
    using validateStatusTransition_terminal[of "''CANCELLED''"] by blast
  have s: "snd (run_calls st rid calls) = st \<and> list_all failed (fst (run_calls st rid calls))"
    if "(stored_status st rid = Some (JString ''COMPLETED'')
          \<or> stored_status st rid = Some (JString ''CANCELLED''))
        \<and> passes_stored_status st rid calls"
    using that passes_stored_status_terminal[of st rid calls] run_calls_terminal[of calls st rid]
    by blast
  show ?thesis
    using e1 e2 updateRequestStatus_invalid[OF e1] updateRequestStatus_invalid[OF e2]
      allowed_transitions_terminal run_calls_terminal[of calls st rid] s by simp
qed

theorem terminal_status_final_witness:
  "stored_status completed_store ''REQ-1'' = Some (JString ''COMPLETED'')
   \<and> updateRequestStatus example_env completed_store ''book_hold'' ''REQ-1'' ''COMPLETED'' ''NEW''
        None Map.empty
     = (Failure ''Invalid status transition from COMPLETED to NEW for book_hold'', completed_store)
   \<and> updateRequestStatus example_env example_store ''special_order'' ''REQ-1'' ''CANCELLED''
        ''ORDERED'' None Map.empty
     = (Failure ''Invalid status transition from CANCELLED to ORDERED for special_order'',
        example_store)
   \<and> list_all asserts_terminal
        [example_call ''COMPLETED'' ''NEW'', example_call ''COMPLETED'' ''CANCELLED'',
         example_call ''COMPLETED'' ''PAID'']
   \<and> passes_stored_status completed_store ''REQ-1''
        [example_call ''COMPLETED'' ''NEW'', example_call ''COMPLETED'' ''CANCELLED'',
         example_call ''COMPLETED'' ''PAID'']
   \<and> snd (run_calls completed_store ''REQ-1''
        [example_call ''COMPLETED'' ''NEW'', example_call ''COMPLETED'' ''CANCELLED'',
         example_call ''COMPLETED'' ''PAID'']) = completed_store
   \<and> list_all failed (fst (run_calls completed_store ''REQ-1''
        [example_call ''COMPLETED'' ''NEW'', example_call ''COMPLETED'' ''CANCELLED'',
         example_call ''COMPLETED'' ''PAID'']))"
proof -
  let ?calls = "[example_call ''COMPLETED'' ''NEW'', example_call ''COMPLETED'' ''CANCELLED'',
         example_call ''COMPLETED'' ''PAID'']"
  have a: "validateStatusTransition ''book_hold'' ''COMPLETED'' ''NEW''
       = Inl (JsError ''Invalid status transition from COMPLETED to NEW for book_hold'')"
    by (simp add: validateStatusTransition_def get_property_def REQUEST_TYPES_constructed
        CONSTRUCTED_REQUEST_TYPES_def BOOK_HOLD_TRANSITIONS_def)
  have b: "validateStatusTransition ''special_order'' ''CANCELLED'' ''ORDERED''
       = Inl (JsError ''Invalid status transition from CANCELLED to ORDERED for special_order'')"
    by (simp add: validateStatusTransition_def get_property_def REQUEST_TYPES_constructed
        CONSTRUCTED_REQUEST_TYPES_def IMPROVED_TRANSITIONS_def)
  have c: "list_all asserts_terminal ?calls"
    by (simp add: asserts_terminal_def example_call_def)
  have d: "stored_status completed_store ''REQ-1'' = Some (JString ''COMPLETED'')"
    by (simp add: stored_status_def findOne_def completed_store_def matches_requestId_def)
  have u: "snd (updateRequestStatus example_env completed_store ''book_hold'' ''REQ-1''
                  ''COMPLETED'' B None Map.empty) = completed_store" for B
  proof -
    obtain err where "validateStatusTransition ''book_hold'' ''COMPLETED'' B = Inl err"
      using validateStatusTransition_terminal[of "''COMPLETED''" "''book_hold''" B] by blast
    then show ?thesis by (simp add: updateRequestStatus_invalid)
  qed
  have p: "passes_stored_status completed_store ''REQ-1'' ?calls"
    by (simp add: example_call_def d u)
  have 1: "snd (run_calls completed_store ''REQ-1'' ?calls) = completed_store
      \<and> list_all failed (fst (run_calls completed_store ''REQ-1'' ?calls))"
    using terminal_status_final[of "''book_hold''" "''NEW''" example_env completed_store
        "''REQ-1''" None Map.empty ?calls] c d p
    by blast
  have 2: "updateRequestStatus example_env completed_store ''book_hold'' ''REQ-1'' ''COMPLETED''
        ''NEW'' None Map.empty
     = (Failure ''Invalid status transition from COMPLETED to NEW for book_hold'', completed_store)"
    using terminal_status_final[of "''book_hold''" "''NEW''" example_env completed_store
        "''REQ-1''" None Map.empty "[]"]
    unfolding a by auto
  have 3: "updateRequestStatus example_env example_store ''special_order'' ''REQ-1'' ''CANCELLED''
        ''ORDERED'' None Map.empty
     = (Failure ''Invalid status transition from CANCELLED to ORDERED for special_order'',
        example_store)"
    using terminal_status_final[of "''special_order''" "''ORDERED''" example_env example_store
        "''REQ-1''" None Map.empty "[]"]
    unfolding b by auto
  show ?thesis using 1 2 3 c d p by blast
qed

text \<open>
  C9. For a registered request type, a call whose current status is not a key of the
  type's transition table is rejected for every new status: the missing entry allows
  nothing.
\<close>

theorem unknown_current_status_rejected:
  assumes "map_of REQUEST_TYPES T = Some cfg"
      and "map_of (statusTransitions cfg) A = None"
  shows "allowed_transitions T A = []
     \<and> validateStatusTransition T A B =
         Inl (if A \<in> set object_prototype_keys
              then JsTypeError ''validTransitions.includes is not a function''
              else JsError (''Invalid status transition from '' @ A @ '' to '' @ B
                             @ '' for '' @ T))
     \<and> (\<exists>err. updateRequestStatus e st T rid A B uid extra = (Failure err, st))"
proof -
  have empty: "allowed_transitions T A = []"
    using assms by (simp add: allowed_transitions_def)
  then have "B \<notin> set (allowed_transitions T A)" by simp
  from validateStatusTransition_rejects[OF assms(1) this] empty
  show ?thesis by (simp add: updateRequestStatus_invalid)
qed

theorem unknown_current_status_rejected_witness:
  "updateRequestStatus example_env example_store ''book_hold'' ''REQ-1'' ''ORDERED'' ''RECEIVED''
      None Map.empty
     = (Failure ''Invalid status transition from ORDERED to RECEIVED for book_hold'',
        example_store)
   \<and> validateStatusTransition ''special_order'' ''new'' ''ORDERED''
     = Inl (JsError ''Invalid status transition from new to ORDERED for special_order'')
   \<and> validateStatusTransition ''special_order'' ''constructor'' ''ORDERED''
     = Inl (JsTypeError ''validTransitions.includes is not a function'')"
proof -
  let ?bh = "\<lparr>possibleStatuses = COMMON_STATUSES, statusTransitions = BOOK_HOLD_TRANSITIONS,
          requiredFieldsPerStatus =
            [(''PAID'', [''payment_method'', ''order_number'']),
             (''COMPLETED'', [''completion_date''])]\<rparr>"
  let ?so = "\<lparr>possibleStatuses = COMMON_STATUSES, statusTransitions = IMPROVED_TRANSITIONS,
          requiredFieldsPerStatus = ORDER_FIELDS\<rparr>"
  have a: "map_of REQUEST_TYPES ''book_hold'' = Some ?bh"
       "map_of REQUEST_TYPES ''special_order'' = Some ?so"
    by (simp_all add: REQUEST_TYPES_constructed CONSTRUCTED_REQUEST_TYPES_def)
  have b: "map_of (statusTransitions ?bh) ''ORDERED'' = None"
       "map_of (statusTransitions ?so) ''new'' = None"
       "map_of (statusTransitions ?so) ''constructor'' = None"
    by (simp_all add: BOOK_HOLD_TRANSITIONS_def IMPROVED_TRANSITIONS_def)
  have c: "updateRequestStatus example_env example_store ''book_hold'' ''REQ-1'' ''ORDERED''
      ''RECEIVED'' None Map.empty
     = (Failure ''Invalid status transition from ORDERED to RECEIVED for book_hold'',
        example_store)"
    using unknown_current_status_rejected[OF a(1) b(1), of "''RECEIVED''" example_env
        example_store "''REQ-1''" None Map.empty]
    by (auto simp add: updateRequestStatus_def object_prototype_keys_def)
  show ?thesis
    using c unknown_current_status_rejected[OF a(2) b(2), of "''ORDERED''"]
      unknown_current_status_rejected[OF a(2) b(3), of "''ORDERED''"]
    by (simp add: object_prototype_keys_def)
qed

lemma creation_fields_not_inherited:
  "f \<in> set (creation_fields T) \<Longrightarrow> f \<notin> set object_prototype_keys"
  unfolding creation_fields_def REQUIRED_FIELDS_def object_prototype_keys_def
  by (auto split: if_splits)

lemma status_fields_not_inherited:
  "f \<in> set (status_fields T S) \<Longrightarrow> f \<notin> set object_prototype_keys"
  unfolding status_fields_def REQUEST_TYPES_constructed CONSTRUCTED_REQUEST_TYPES_def
    ORDER_FIELDS_def object_prototype_keys_def
  by (auto split: if_splits)

lemma falsy_like_absent:
  "\<not> truthy v \<Longrightarrow> f \<notin> set object_prototype_keys \<Longrightarrow>
   truthy (get_field (b(k \<mapsto> v)) f) = truthy (get_field (b(k := None)) f)"
  by (auto simp add: get_field_def)

lemma required_fields_loop_cong:
  "(\<And>f. f \<in> set fs \<Longrightarrow> truthy (get_field b1 f) = truthy (get_field b2 f)) \<Longrightarrow>
   required_fields_loop T S b1 fs = required_fields_loop T S b2 fs"
  by (induction fs) simp_all

lemma required_fields_loop_throws:
  "k \<in> set fs \<Longrightarrow> \<not> truthy (get_field b k) \<Longrightarrow>
   \<exists>f \<in> set fs. required_fields_loop T S b fs =
      Inl (JsError (''Field '' @ [CHR 0x22] @ f @ [CHR 0x22] @ '' is required for '' @ T
                     @ '' to transition to '' @ S))"
  by (induction fs) auto

lemma validateRequiredFieldsForType_eq:
  "validateRequiredFieldsForType T b =
     (case get_property REQUIRED_FIELDS T of
        Missing \<Rightarrow> Inl (JsError (''Unknown request type: '' @ T))
      | Inherited \<Rightarrow> Inl (JsTypeError ''requiredFields.filter is not a function'')
      | Own u \<Rightarrow>
          (let missingFields = filter (\<lambda>field. \<not> truthy (get_field b field)) (creation_fields T)
           in if missingFields \<noteq> []
              then Inl (JsError (''Missing required fields for '' @ T @ '': ''
                                  @ js_join '', '' missingFields))
              else Inr True))"
  by (auto simp add: validateRequiredFieldsForType_def get_property_def creation_fields_def
      split: option.splits)

lemma validateRequiredFields_eq:
  "validateRequiredFields T S b =
     (case get_property REQUEST_TYPES T of
        Own cfg \<Rightarrow>
          (case get_property (requiredFieldsPerStatus cfg) S of
             Inherited \<Rightarrow> Inl (JsTypeError ''requiredFields is not iterable'')
           | _ \<Rightarrow> required_fields_loop T S b (status_fields T S))
      | _ \<Rightarrow> Inr True)"
  by (auto simp add: validateRequiredFields_def get_property_def status_fields_def
      split: option.splits)

text \<open>
  C10. In the check at creation and in the check per status, a bag that holds a falsy
  value under a key gets the answer of the bag without the key; when the key is a
  required field, that answer is the missing-field error.
\<close>

theorem falsy_field_counts_as_missing:
  assumes "\<not> truthy v"
  shows "validateRequiredFieldsForType T (b(k \<mapsto> v)) = validateRequiredFieldsForType T (b(k := None))
     \<and> validateRequiredFields T S (b(k \<mapsto> v)) = validateRequiredFields T S (b(k := None))
     \<and> (k \<in> set (creation_fields T) \<longrightarrow>
          (\<exists>missing. k \<in> set missing \<and>
             validateRequiredFieldsForType T (b(k \<mapsto> v)) =
               Inl (JsError (''Missing required fields for '' @ T @ '': ''
                              @ js_join '', '' missing))))
     \<and> (k \<in> set (status_fields T S) \<longrightarrow>
          (\<exists>f \<in> set (status_fields T S).
             validateRequiredFields T S (b(k \<mapsto> v)) =
               Inl (JsError (''Field '' @ [CHR 0x22] @ f @ [CHR 0x22] @ '' is required for '' @ T
                              @ '' to transition to '' @ S))))"
proof -
  have c: "filter (\<lambda>field. \<not> truthy (get_field (b(k \<mapsto> v)) field)) (creation_fields T)
         = filter (\<lambda>field. \<not> truthy (get_field (b(k := None)) field)) (creation_fields T)"
    by (rule filter_cong[OF refl])
       (use falsy_like_absent[OF assms] creation_fields_not_inherited in simp)
  have 1: "validateRequiredFieldsForType T (b(k \<mapsto> v))
         = validateRequiredFieldsForType T (b(k := None))"
    unfolding validateRequiredFieldsForType_eq c ..
  have 2: "validateRequiredFields T S (b(k \<mapsto> v)) = validateRequiredFields T S (b(k := None))"
    unfolding validateRequiredFields_eq
    using required_fields_loop_cong[of "status_fields T S" "b(k \<mapsto> v)" "b(k := None)" T S]
      falsy_like_absent[OF assms] status_fields_not_inherited
    by (simp split: property.splits)
  have g: "\<not> truthy (get_field (b(k \<mapsto> v)) k)"
    using assms by (simp add: get_field_def)
  have 3: "\<exists>missing. k \<in> set missing \<and>
             validateRequiredFieldsForType T (b(k \<mapsto> v)) =
               Inl (JsError (''Missing required fields for '' @ T @ '': ''
                              @ js_join '', '' missing))"
    if k: "k \<in> set (creation_fields T)"
  proof -
    let ?m = "filter (\<lambda>field. \<not> truthy (get_field (b(k \<mapsto> v)) field)) (creation_fields T)"
    have km: "k \<in> set ?m" using k g by simp
    then have ne: "?m \<noteq> []" by (metis empty_iff empty_set)
    from k obtain fs where "map_of REQUIRED_FIELDS T = Some fs"
      by (cases "map_of REQUIRED_FIELDS T") (simp_all add: creation_fields_def)
    then have "get_property REQUIRED_FIELDS T = Own fs" by (simp add: get_property_def)
    then have "validateRequiredFieldsForType T (b(k \<mapsto> v)) =
               Inl (JsError (''Missing required fields for '' @ T @ '': '' @ js_join '', '' ?m))"
      unfolding validateRequiredFieldsForType_eq using ne by (simp add: Let_def)
    with km show ?thesis by blast
  qed
  have 4: "\<exists>f \<in> set (status_fields T S).
             validateRequiredFields T S (b(k \<mapsto> v)) =
               Inl (JsError (''Field '' @ [CHR 0x22] @ f @ [CHR 0x22] @ '' is required for '' @ T
                              @ '' to transition to '' @ S))"
    if k: "k \<in> set (status_fields T S)"
  proof -
    from k obtain cfg where cfg: "map_of REQUEST_TYPES T = Some cfg"
      by (cases "map_of REQUEST_TYPES T") (simp_all add: status_fields_def)
    with k obtain fs where fs: "map_of (requiredFieldsPerStatus cfg) S = Some fs"
      by (cases "map_of (requiredFieldsPerStatus cfg) S") (simp_all add: status_fields_def)
    with cfg have "validateRequiredFields T S (b(k \<mapsto> v))
        = required_fields_loop T S (b(k \<mapsto> v)) (status_fields T S)"
      unfolding validateRequiredFields_eq by (simp add: get_property_def)
    with required_fields_loop_throws[OF k g, of T S] show ?thesis by simp
  qed
  from 1 2 3 4 show ?thesis by blast
qed

theorem falsy_field_counts_as_missing_witness:
  "validateRequiredFields ''book_hold'' ''PAID''
      [''payment_method'' \<mapsto> JString ''cash'', ''order_number'' \<mapsto> JString '''']
   = validateRequiredFields ''book_hold'' ''PAID'' [''payment_method'' \<mapsto> JString ''cash'']
   \<and> validateRequiredFields ''book_hold'' ''PAID''
      [''payment_method'' \<mapsto> JString ''cash'', ''order_number'' \<mapsto> JString '''']
   = Inl (JsError (''Field '' @ [CHR 0x22] @ ''order_number'' @ [CHR 0x22]
                    @ '' is required for book_hold to transition to PAID''))
   \<and> validateRequiredFieldsForType ''book_hold''
      [''customerName'' \<mapsto> JString ''Ada'', ''customerContact'' \<mapsto> JString ''ada@example.com'',
       ''details'' \<mapsto> JString ''hold'', ''isbn'' \<mapsto> JString '''']
   = Inl (JsError ''Missing required fields for book_hold: isbn'')"
proof -
  have f: "\<not> truthy (JString '''')" by simp
  have u: "[''payment_method'' \<mapsto> JString ''cash''](''order_number'' := None)
         = [''payment_method'' \<mapsto> JString ''cash'']"
    by (simp add: fun_eq_iff)
  have a: "validateRequiredFields ''book_hold'' ''PAID''
      [''payment_method'' \<mapsto> JString ''cash'', ''order_number'' \<mapsto> JString '''']
   = Inl (JsError (''Field '' @ [CHR 0x22] @ ''order_number'' @ [CHR 0x22]
                    @ '' is required for book_hold to transition to PAID''))"
    by (simp add: validateRequiredFields_def get_property_def REQUEST_TYPES_constructed
        CONSTRUCTED_REQUEST_TYPES_def get_field_def)
  have b: "validateRequiredFieldsForType ''book_hold''
      [''customerName'' \<mapsto> JString ''Ada'', ''customerContact'' \<mapsto> JString ''ada@example.com'',
       ''details'' \<mapsto> JString ''hold'', ''isbn'' \<mapsto> JString '''']
   = Inl (JsError ''Missing required fields for book_hold: isbn'')"
    by (simp add: validateRequiredFieldsForType_def get_property_def REQUIRED_FIELDS_def
        get_field_def js_join_def)
  show ?thesis
    using falsy_field_counts_as_missing[OF f, of "''book_hold''"
        "[''payment_method'' \<mapsto> JString ''cash'']" "''order_number''" "''PAID''"] a b
    unfolding u by simp
qed

section \<open>The store write and the event log\<close>

lemma or_else_Some_empty: "or_else (Some s) [] = s"
  by (simp add: or_else_def)

lemma logEvent_status_change:
  "snd (logEvent e st \<lparr>ed_requestType = T, ed_requestId = rid, ed_action = ''STATUS_CHANGE'',
          ed_previousStatus = Some A, ed_newStatus = Some B, ed_userId = uid,
          ed_additionalMetadata = Some extra\<rparr>)
   = (let entry = status_change_entry e T rid A B uid extra;
          st1 = (if events_insert_ok e then st\<lparr>events := events st @ [entry]\<rparr> else st)
      in if events_file_ok e
         then st1\<lparr>event_log_files := (event_log_files st1)(T := event_log_files st1 T @ [entry])\<rparr>
         else st1)"
  by (simp add: logEvent_def status_change_entry_def or_else_Some_empty Let_def)

lemma logEvent_frame:
  "requests (snd (logEvent e st ed)) = requests st"
  "request_log_files (snd (logEvent e st ed)) = request_log_files st"
  "events (snd (logEvent e st ed)) =
     (if events_insert_ok e
      then events st @ [\<lparr>ev_requestId = ed_requestId ed, ev_requestType = ed_requestType ed,
                         ev_action = ed_action ed,
                         ev_previousStatus = or_else (ed_previousStatus ed) [],
                         ev_newStatus = or_else (ed_newStatus ed) [],
                         ev_timestamp = now e,
                         ev_userId = or_else (ed_userId ed) ''system'',
                         ev_additionalMetadata =
                           (case ed_additionalMetadata ed of None \<Rightarrow> Map.empty | Some m \<Rightarrow> m)\<rparr>]
      else events st)"
  by (simp_all add: logEvent_def Let_def)

lemma updateOne_None: "updateOne ds rid upd = None \<longleftrightarrow> find (matches_requestId rid) ds = None"
  by (induction ds) auto

lemma updateOne_Some:
  assumes "updateOne ds rid upd = Some ds'" "upd ''requestId'' = None"
  shows "\<exists>d. find (matches_requestId rid) ds = Some d
           \<and> find (matches_requestId rid) ds' = Some (d ++ upd)"
  using assms
proof (induction ds arbitrary: ds')
  case Nil
  then show ?case by simp
next
  case (Cons d ds)
  show ?case
  proof (cases "matches_requestId rid d")
    case True
    then have "matches_requestId rid (d ++ upd)"
      using Cons.prems(2) by (simp add: matches_requestId_def map_add_def)
    with True Cons.prems show ?thesis by auto
  next
    case False
    with Cons.prems obtain r where r: "updateOne ds rid upd = Some r" "ds' = d # r" by auto
    from Cons.IH[OF r(1) Cons.prems(2)] False r(2) show ?thesis by simp
  qed
qed

lemma find_snoc:
  "find P xs = None \<Longrightarrow> P x \<Longrightarrow> find P (xs @ [x]) = Some x"
proof (induction xs)
  case Nil
  then show ?case by simp
next
  case (Cons a xs)
  from Cons.prems(1) have "\<not> P a" "find P xs = None" by (simp_all split: if_splits)
  with Cons.IH Cons.prems(2) show ?case by simp
qed

lemma insort_key_snoc:
  "f a \<le> f x \<Longrightarrow> insort_key f a (ys @ [x]) = insort_key f a ys @ [x]"
  by (induction ys) auto

lemma sort_key_snoc:
  "(\<And>y. y \<in> set xs \<Longrightarrow> f y \<le> f x) \<Longrightarrow> sort_key f (xs @ [x]) = sort_key f xs @ [x]"
  by (induction xs) (simp_all add: insort_key_snoc)

lemma replay_status_snoc:
  "replay_status (xs @ [ev]) =
     (if ev_newStatus ev \<noteq> [] then Some (ev_newStatus ev) else replay_status xs)"
  by (simp add: replay_status_def)

lemma allowed_not_empty: "B \<in> set (allowed_transitions T A) \<Longrightarrow> B \<noteq> []"
proof (cases "map_of REQUEST_TYPES T")
  case None
  assume "B \<in> set (allowed_transitions T A)"
  with None show ?thesis by (simp add: allowed_transitions_def)
next
  case (Some cfg)
  assume b: "B \<in> set (allowed_transitions T A)"
  from registered_transitions[OF Some] b Some show ?thesis
    by (auto simp add: allowed_transitions_def IMPROVED_TRANSITIONS_def BOOK_HOLD_TRANSITIONS_def
        split: if_splits)
qed

lemma validateStatusTransition_Inr:
  assumes "validateStatusTransition T A B = Inr ok"
  shows "B \<in> set (allowed_transitions T A)"
proof (cases "map_of REQUEST_TYPES T")
  case None
  with assms show ?thesis
    by (simp add: validateStatusTransition_def get_property_def split: if_splits)
next
  case (Some cfg)
  with assms show ?thesis
    by (simp add: validateStatusTransition_registered split: if_splits)
qed

lemma updateRequestStatus_validated:
  assumes "validateStatusTransition T A B = Inr ok" "validateRequiredFields T B extra = Inr ok'"
  shows "updateRequestStatus e st T rid A B uid extra =
     update_document e
       (snd (logEvent e st
                  \<lparr>ed_requestType = T, ed_requestId = rid,
                   ed_action = ''STATUS_CHANGE'', ed_previousStatus = Some A,
                   ed_newStatus = Some B, ed_userId = uid,
                   ed_additionalMetadata = Some extra\<rparr>))
       T rid A B extra"
  using assms by (simp add: updateRequestStatus_def)

lemma update_document_cases:
  obtains (db_down) "\<not> requests_update_ok e"
      "update_document e st T rid A B extra = (Failure (db_error e), st)"
    | (updated) ds where
      "updateOne (requests st) rid
         ([''status'' \<mapsto> JString B, ''updatedAt'' \<mapsto> JDate (now e)] ++ extra) = Some ds"
      "update_document e st T rid A B extra =
         (Success (''Request '' @ rid @ '' status updated from '' @ A @ '' to '' @ B),
          st\<lparr>requests := ds\<rparr>)"
    | (inserted)
      "updateOne (requests st) rid
         ([''status'' \<mapsto> JString B, ''updatedAt'' \<mapsto> JDate (now e)] ++ extra) = None"
      "update_document e st T rid A B extra =
         (Success (''Created new entry for request '' @ rid @ '' with status '' @ B),
          st\<lparr>requests := requests st @
             [[''requestId'' \<mapsto> JString rid, ''type'' \<mapsto> JString T,
               ''status'' \<mapsto> JString B, ''createdAt'' \<mapsto> JDate (now e),
               ''updatedAt'' \<mapsto> JDate (now e)] ++ extra]\<rparr>)"
    | (not_found)
      "update_document e st T rid A B extra = (Failure (''No request found with ID: '' @ rid), st)"
proof (cases "requests_update_ok e")
  case False
  then show ?thesis using db_down by (simp add: update_document_def)
next
  case up: True
  show ?thesis
  proof (cases "updateOne (requests st) rid
         ([''status'' \<mapsto> JString B, ''updatedAt'' \<mapsto> JDate (now e)] ++ extra)")
    case (Some ds)
    with up show ?thesis using updated by (simp add: update_document_def)
  next
    case None
    show ?thesis
    proof (cases "requests_log_ok e
                 \<and> (case request_log_files st T of
                       None \<Rightarrow> False
                     | Some fileContent \<Rightarrow> str_includes fileContent rid)
                 \<and> requests_insert_ok e")
      case True
      with up None show ?thesis using inserted by (simp add: update_document_def Let_def)
    next
      case False
      with up None show ?thesis using not_found by (simp add: update_document_def)
    qed
  qed
qed

lemma update_document_events: "events (snd (update_document e st T rid A B extra)) = events st"
proof (cases rule: update_document_cases[of e st T rid A B extra])
  case db_down
  show ?thesis unfolding db_down(2) by simp
next
  case (updated ds)
  show ?thesis unfolding updated(2) by simp
next
  case inserted
  show ?thesis unfolding inserted(2) by simp
next
  case not_found
  show ?thesis unfolding not_found by simp
qed

lemma update_document_Failure:
  assumes "fst (update_document e st T rid A B extra) = Failure m"
  shows "snd (update_document e st T rid A B extra) = st"
proof (cases rule: update_document_cases[of e st T rid A B extra])
  case db_down
  show ?thesis unfolding db_down(2) by simp
next
  case (updated ds)
  from assms show ?thesis unfolding updated(2) by simp
next
  case inserted
  from assms show ?thesis unfolding inserted(2) by simp
next
  case not_found
  show ?thesis unfolding not_found by simp
qed

lemma stored_status_updated:
  assumes "updateOne (requests st) rid upd = Some ds"
      and "upd ''requestId'' = None" and "upd ''status'' = Some v"
  shows "stored_status (st\<lparr>requests := ds\<rparr>) rid = Some v"
proof -
  from updateOne_Some[OF assms(1,2)] obtain d
    where d: "find (matches_requestId rid) ds = Some (d ++ upd)" by blast
  have "(d ++ upd) ''status'' = Some v"
    using assms(3) by (simp add: map_add_def)
  with d show ?thesis by (simp add: stored_status_def findOne_def)
qed

lemma stored_status_inserted:
  assumes "updateOne (requests st) rid upd = None"
      and "matches_requestId rid new" and "new ''status'' = Some v"
  shows "stored_status (st\<lparr>requests := requests st @ [new]\<rparr>) rid = Some v"
proof -
  have "find (matches_requestId rid) (requests st) = None"
    using assms(1) by (simp add: updateOne_None)
  then have "find (matches_requestId rid) (requests st @ [new]) = Some new"
    using assms(2) find_snoc[of "matches_requestId rid" "requests st" new] by simp
  with assms(3) show ?thesis by (simp add: stored_status_def findOne_def)
qed

lemma status_update_fields:
  assumes "extra ''status'' = None" "extra ''requestId'' = None"
  shows "([''status'' \<mapsto> JString B, ''updatedAt'' \<mapsto> JDate t] ++ extra) ''requestId'' = None"
    and "([''status'' \<mapsto> JString B, ''updatedAt'' \<mapsto> JDate t] ++ extra) ''status''
           = Some (JString B)"
  using assms by (simp_all add: map_add_def)

lemma new_document_fields:
  assumes "extra ''status'' = None" "extra ''requestId'' = None"
  shows "matches_requestId rid
           ([''requestId'' \<mapsto> JString rid, ''type'' \<mapsto> JString T, ''status'' \<mapsto> JString B,
             ''createdAt'' \<mapsto> JDate t, ''updatedAt'' \<mapsto> JDate t] ++ extra)"
    and "([''requestId'' \<mapsto> JString rid, ''type'' \<mapsto> JString T, ''status'' \<mapsto> JString B,
           ''createdAt'' \<mapsto> JDate t, ''updatedAt'' \<mapsto> JDate t] ++ extra) ''status''
           = Some (JString B)"
  using assms by (simp_all add: matches_requestId_def map_add_def)

lemma update_document_Success:
  assumes s: "fst (update_document e st T rid A B extra) = Success m"
      and x: "extra ''status'' = None" "extra ''requestId'' = None"
  shows "stored_status (snd (update_document e st T rid A B extra)) rid = Some (JString B)"
proof (cases rule: update_document_cases[of e st T rid A B extra])
  case db_down
  from s show ?thesis unfolding db_down(2) by simp
next
  case (updated ds)
  show ?thesis unfolding updated(2) snd_conv
    by (rule stored_status_updated[OF updated(1) status_update_fields[OF x]])
next
  case inserted
  show ?thesis unfolding inserted(2) snd_conv
    by (rule stored_status_inserted[OF inserted(1) new_document_fields[OF x]])
next
  case not_found
  from s show ?thesis unfolding not_found by simp
qed

lemma updateRequestStatus_events:
  assumes "validateStatusTransition T A B = Inr ok" "validateRequiredFields T B extra = Inr ok'"
  shows "events (snd (updateRequestStatus e st T rid A B uid extra)) =
     (if events_insert_ok e then events st @ [status_change_entry e T rid A B uid extra]
      else events st)"
  unfolding updateRequestStatus_validated[OF assms] update_document_events
  by (simp add: logEvent_frame status_change_entry_def or_else_Some_empty)

lemma updateRequestStatus_Success_validated:
  assumes "fst (updateRequestStatus e st T rid A B uid extra) = Success m"
  shows "(\<exists>ok. validateStatusTransition T A B = Inr ok)
       \<and> (\<exists>ok. validateRequiredFields T B extra = Inr ok)"
proof (cases "validateStatusTransition T A B")
  case (Inl a)
  with assms show ?thesis by (simp add: updateRequestStatus_def)
next
  case (Inr ok)
  show ?thesis
  proof (cases "validateRequiredFields T B extra")
    case (Inl a)
    with assms Inr show ?thesis by (simp add: updateRequestStatus_def)
  next
    case Inr2: (Inr ok')
    with Inr show ?thesis by simp
  qed
qed

lemma updateRequestStatus_Failure_requests:
  assumes "fst (updateRequestStatus e st T rid A B uid extra) = Failure m"
  shows "requests (snd (updateRequestStatus e st T rid A B uid extra)) = requests st"
proof (cases "validateStatusTransition T A B")
  case (Inl a)
  then show ?thesis by (simp add: updateRequestStatus_def)
next
  case (Inr ok)
  show ?thesis
  proof (cases "validateRequiredFields T B extra")
    case (Inl a)
    with Inr show ?thesis by (simp add: updateRequestStatus_def)
  next
    case Inr2: (Inr ok')
    show ?thesis
      using assms unfolding updateRequestStatus_validated[OF Inr Inr2]
      by (simp add: update_document_Failure logEvent_frame)
  qed
qed

lemma updateRequestStatus_Success_stored:
  assumes s: "fst (updateRequestStatus e st T rid A B uid extra) = Success m"
      and x: "extra ''status'' = None" "extra ''requestId'' = None"
  shows "stored_status (snd (updateRequestStatus e st T rid A B uid extra)) rid
           = Some (JString B)"
proof -
  from updateRequestStatus_Success_validated[OF s] obtain ok ok'
    where v: "validateStatusTransition T A B = Inr ok" "validateRequiredFields T B extra = Inr ok'"
    by blast
  show ?thesis
    using s unfolding updateRequestStatus_validated[OF v]
    by (rule update_document_Success) (fact x)+
qed

lemma updateRequestStatus_Success_replay:
  assumes s: "fst (updateRequestStatus e st T rid A B uid extra) = Success m"
      and ok: "events_insert_ok e"
      and clock: "\<And>ev. ev \<in> set (events st) \<Longrightarrow> ev_timestamp ev \<le> now e"
  shows "replay_status (getRequestHistory (snd (updateRequestStatus e st T rid A B uid extra)) rid)
           = Some B"
proof -
  from updateRequestStatus_Success_validated[OF s] obtain ok1 ok2
    where v: "validateStatusTransition T A B = Inr ok1" "validateRequiredFields T B extra = Inr ok2"
    by blast
  let ?entry = "status_change_entry e T rid A B uid extra"
  let ?mine = "filter (\<lambda>ev. ev_requestId ev = rid) (events st)"
  have ne: "B \<noteq> []"
    using validateStatusTransition_Inr[OF v(1)] by (rule allowed_not_empty)
  have "getRequestHistory (snd (updateRequestStatus e st T rid A B uid extra)) rid
          = sort_key ev_timestamp (?mine @ [?entry])"
    using ok by (simp add: getRequestHistory_def updateRequestStatus_events[OF v]
        status_change_entry_def)
  also have "\<dots> = sort_key ev_timestamp ?mine @ [?entry]"
    by (rule sort_key_snoc) (use clock in \<open>simp add: status_change_entry_def\<close>)
  finally show ?thesis
    using ne by (simp add: replay_status_snoc status_change_entry_def)
qed

lemma book_hold_config:
  "get_property REQUEST_TYPES ''book_hold'' =
     Own \<lparr>possibleStatuses = COMMON_STATUSES, statusTransitions = BOOK_HOLD_TRANSITIONS,
          requiredFieldsPerStatus =
            [(''PAID'', [''payment_method'', ''order_number'']),
             (''COMPLETED'', [''completion_date''])]\<rparr>"
  by (simp add: get_property_def REQUEST_TYPES_constructed CONSTRUCTED_REQUEST_TYPES_def)

lemma book_hold_NEW_PAID_allowed: "validateStatusTransition ''book_hold'' ''NEW'' ''PAID'' = Inr True"
  unfolding validateStatusTransition_def book_hold_config
  by (simp add: get_property_def BOOK_HOLD_TRANSITIONS_def)

lemma book_hold_PAID_fields:
  "validateRequiredFields ''book_hold'' ''PAID'' extra =
     (if \<not> truthy (get_field extra ''payment_method'')
      then Inl (JsError (field_required_message ''payment_method'' ''book_hold'' ''PAID''))
      else if \<not> truthy (get_field extra ''order_number'')
      then Inl (JsError (field_required_message ''order_number'' ''book_hold'' ''PAID''))
      else Inr True)"
  unfolding validateRequiredFields_def book_hold_config
  by (simp add: get_property_def field_required_message_def)

lemma findOne_updateOne:
  "findOne st rid \<noteq> None \<Longrightarrow> \<exists>ds. updateOne (requests st) rid upd = Some ds"
  using updateOne_None[of "requests st" rid upd] by (auto simp add: findOne_def)

lemma paid_fields_valid: "validateRequiredFields ''book_hold'' ''PAID'' paid_fields = Inr True"
  by (simp add: book_hold_PAID_fields get_field_def paid_fields_def)

lemma example_not_found:
  "updateRequestStatus example_env example_store ''book_hold'' ''REQ-2'' ''NEW'' ''PAID'' None
      paid_fields
   = (Failure ''No request found with ID: REQ-2'',
      example_store\<lparr>events := events example_store
          @ [status_change_entry example_env ''book_hold'' ''REQ-2'' ''NEW'' ''PAID'' None paid_fields],
        event_log_files := (event_log_files example_store)
          (''book_hold'' := [status_change_entry example_env ''book_hold'' ''REQ-2'' ''NEW'' ''PAID''
                               None paid_fields])\<rparr>)"
  unfolding updateRequestStatus_validated[OF book_hold_NEW_PAID_allowed paid_fields_valid]
    logEvent_status_change
  by (simp add: update_document_def example_env_def example_store_def matches_requestId_def
      Let_def)

lemma example_db_down:
  "updateRequestStatus (example_env\<lparr>requests_update_ok := False\<rparr>) example_store ''book_hold''
      ''REQ-1'' ''NEW'' ''PAID'' None paid_fields
   = (Failure ''connection refused'',
      example_store\<lparr>events := events example_store
          @ [status_change_entry example_env ''book_hold'' ''REQ-1'' ''NEW'' ''PAID'' None paid_fields],
        event_log_files := (event_log_files example_store)
          (''book_hold'' := [status_change_entry example_env ''book_hold'' ''REQ-1'' ''NEW'' ''PAID''
                               None paid_fields])\<rparr>)"
  unfolding updateRequestStatus_validated[OF book_hold_NEW_PAID_allowed paid_fields_valid]
    logEvent_status_change
  by (simp add: update_document_def example_env_def example_store_def status_change_entry_def
      Let_def)

lemma example_updated:
  "fst (updateRequestStatus example_env example_store ''book_hold'' ''REQ-1'' ''NEW'' ''PAID'' None
          paid_fields) = Success ''Request REQ-1 status updated from NEW to PAID''"
  unfolding updateRequestStatus_validated[OF book_hold_NEW_PAID_allowed paid_fields_valid]
    logEvent_status_change
  by (simp add: update_document_def example_env_def example_store_def matches_requestId_def
      Let_def)

lemma paid_fields_with_status_valid:
  "validateRequiredFields ''book_hold'' ''PAID'' paid_fields_with_status = Inr True"
  by (simp add: book_hold_PAID_fields get_field_def paid_fields_def paid_fields_with_status_def)

lemma example_status_overridden:
  "fst (updateRequestStatus example_env example_store ''book_hold'' ''REQ-1'' ''NEW'' ''PAID'' None
          paid_fields_with_status) = Success ''Request REQ-1 status updated from NEW to PAID''"
  "stored_status (snd (updateRequestStatus example_env example_store ''book_hold'' ''REQ-1'' ''NEW''
          ''PAID'' None paid_fields_with_status)) ''REQ-1'' = Some (JString ''NEW'')"
  unfolding updateRequestStatus_validated[OF book_hold_NEW_PAID_allowed paid_fields_with_status_valid]
    logEvent_status_change
  by (simp_all add: update_document_def example_env_def example_store_def matches_requestId_def
      Let_def stored_status_def findOne_def paid_fields_with_status_def paid_fields_def map_add_def)

lemma example_event_insert_fails:
  "fst (updateRequestStatus (example_env\<lparr>events_insert_ok := False\<rparr>) example_store ''book_hold''
          ''REQ-1'' ''NEW'' ''PAID'' None paid_fields)
     = Success ''Request REQ-1 status updated from NEW to PAID''"
  "stored_status (snd (updateRequestStatus (example_env\<lparr>events_insert_ok := False\<rparr>)
          example_store ''book_hold'' ''REQ-1'' ''NEW'' ''PAID'' None paid_fields)) ''REQ-1''
     = Some (JString ''PAID'')"
  "events (snd (updateRequestStatus (example_env\<lparr>events_insert_ok := False\<rparr>)
          example_store ''book_hold'' ''REQ-1'' ''NEW'' ''PAID'' None paid_fields))
     = events example_store"
  unfolding updateRequestStatus_validated[OF book_hold_NEW_PAID_allowed paid_fields_valid]
    logEvent_status_change
  by (simp_all add: update_document_def example_env_def example_store_def matches_requestId_def
      Let_def stored_status_def findOne_def paid_fields_def map_add_def)

lemma book_hold_NEW_CANCELLED_allowed:
  "validateStatusTransition ''book_hold'' ''NEW'' ''CANCELLED'' = Inr True"
  unfolding validateStatusTransition_def book_hold_config
  by (simp add: get_property_def BOOK_HOLD_TRANSITIONS_def)

lemma book_hold_CANCELLED_fields:
  "validateRequiredFields ''book_hold'' ''CANCELLED'' extra = Inr True"
  unfolding validateRequiredFields_def book_hold_config
  by (simp add: get_property_def object_prototype_keys_def)

text \<open>
  C2 as stated fails. The stored status of the request is \<open>COMPLETED\<close>; a call that
  passes \<open>NEW\<close> as \<open>currentStatus\<close> and \<open>CANCELLED\<close> as \<open>newStatus\<close> succeeds, and the
  stored status becomes \<open>CANCELLED\<close>: \<open>updateRequestStatus\<close> compares nothing with the
  stored document.
\<close>

theorem terminal_request_moved_by_stale_call:
  "stored_status completed_store ''REQ-1'' = Some (JString ''COMPLETED'')
   \<and> fst (updateRequestStatus example_env completed_store ''book_hold'' ''REQ-1'' ''NEW''
            ''CANCELLED'' None Map.empty)
       = Success ''Request REQ-1 status updated from NEW to CANCELLED''
   \<and> stored_status (snd (updateRequestStatus example_env completed_store ''book_hold'' ''REQ-1''
            ''NEW'' ''CANCELLED'' None Map.empty)) ''REQ-1'' = Some (JString ''CANCELLED'')"
  unfolding updateRequestStatus_validated[OF book_hold_NEW_CANCELLED_allowed
      book_hold_CANCELLED_fields] logEvent_status_change
  by (simp add: update_document_def example_env_def completed_store_def matches_requestId_def
      Let_def stored_status_def findOne_def map_add_def)

text \<open>
  C3 (as amended). A transition of a \<open>book_hold\<close> request from \<open>NEW\<close> to \<open>PAID\<close> fails
  with the missing-field error of the first required field that is missing or falsy, and
  of that field only: \<open>payment_method\<close> when it is missing, \<open>order_number\<close> when only
  that one is; the state is left as it was. With both fields truthy, a reachable database,
  a stored request of that id and a bag that does not itself carry \<open>status\<close> or
  \<open>requestId\<close>, the call succeeds and the stored status is \<open>PAID\<close>. The engine does not
  look at the shape of the order number.
\<close>

theorem book_hold_paid_gate:
  "(\<not> truthy (get_field extra ''payment_method'')
      \<longrightarrow> updateRequestStatus e st ''book_hold'' rid ''NEW'' ''PAID'' uid extra
            = (Failure (field_required_message ''payment_method'' ''book_hold'' ''PAID''), st))
   \<and> (truthy (get_field extra ''payment_method'') \<and> \<not> truthy (get_field extra ''order_number'')
      \<longrightarrow> updateRequestStatus e st ''book_hold'' rid ''NEW'' ''PAID'' uid extra
            = (Failure (field_required_message ''order_number'' ''book_hold'' ''PAID''), st))
   \<and> (truthy (get_field extra ''payment_method'') \<and> truthy (get_field extra ''order_number'')
        \<and> requests_update_ok e \<and> findOne st rid \<noteq> None
        \<and> extra ''status'' = None \<and> extra ''requestId'' = None
      \<longrightarrow> fst (updateRequestStatus e st ''book_hold'' rid ''NEW'' ''PAID'' uid extra)
            = Success (''Request '' @ rid @ '' status updated from NEW to PAID'')
          \<and> stored_status (snd (updateRequestStatus e st ''book_hold'' rid ''NEW'' ''PAID'' uid extra))
              rid = Some (JString ''PAID''))"
proof (intro conjI impI)
  assume "\<not> truthy (get_field extra ''payment_method'')"
  then show "updateRequestStatus e st ''book_hold'' rid ''NEW'' ''PAID'' uid extra
            = (Failure (field_required_message ''payment_method'' ''book_hold'' ''PAID''), st)"
    by (simp add: updateRequestStatus_def book_hold_NEW_PAID_allowed book_hold_PAID_fields)
next
  assume "truthy (get_field extra ''payment_method'') \<and> \<not> truthy (get_field extra ''order_number'')"
  then show "updateRequestStatus e st ''book_hold'' rid ''NEW'' ''PAID'' uid extra
            = (Failure (field_required_message ''order_number'' ''book_hold'' ''PAID''), st)"
    by (simp add: updateRequestStatus_def book_hold_NEW_PAID_allowed book_hold_PAID_fields)
next
  assume h: "truthy (get_field extra ''payment_method'') \<and> truthy (get_field extra ''order_number'')
        \<and> requests_update_ok e \<and> findOne st rid \<noteq> None
        \<and> extra ''status'' = None \<and> extra ''requestId'' = None"
  let ?st1 = "snd (logEvent e st
                  \<lparr>ed_requestType = ''book_hold'', ed_requestId = rid,
                   ed_action = ''STATUS_CHANGE'', ed_previousStatus = Some ''NEW'',
                   ed_newStatus = Some ''PAID'', ed_userId = uid,
                   ed_additionalMetadata = Some extra\<rparr>)"
  have v: "validateRequiredFields ''book_hold'' ''PAID'' extra = Inr True"
    using h by (simp add: book_hold_PAID_fields)
  have eq: "updateRequestStatus e st ''book_hold'' rid ''NEW'' ''PAID'' uid extra
       = update_document e ?st1 ''book_hold'' rid ''NEW'' ''PAID'' extra"
    by (rule updateRequestStatus_validated[OF book_hold_NEW_PAID_allowed v])
  have "findOne ?st1 rid \<noteq> None" using h by (simp add: findOne_def logEvent_frame)
  then obtain ds where ds: "updateOne (requests ?st1) rid
      ([''status'' \<mapsto> JString ''PAID'', ''updatedAt'' \<mapsto> JDate (now e)] ++ extra) = Some ds"
    using findOne_updateOne by blast
  have "update_document e ?st1 ''book_hold'' rid ''NEW'' ''PAID'' extra
      = (Success (''Request '' @ rid @ '' status updated from '' @ ''NEW'' @ '' to '' @ ''PAID''),
         ?st1\<lparr>requests := ds\<rparr>)"
    unfolding update_document_def using h ds by simp
  then show s: "fst (updateRequestStatus e st ''book_hold'' rid ''NEW'' ''PAID'' uid extra)
            = Success (''Request '' @ rid @ '' status updated from NEW to PAID'')"
    unfolding eq by simp
  from h show "stored_status (snd (updateRequestStatus e st ''book_hold'' rid ''NEW'' ''PAID'' uid extra))
              rid = Some (JString ''PAID'')"
    using updateRequestStatus_Success_stored[OF s] by blast
qed

lemma example_findOne: "findOne example_store ''REQ-1'' \<noteq> None"
  by (simp add: findOne_def example_store_def matches_requestId_def)

theorem book_hold_paid_gate_witness:
  "updateRequestStatus example_env example_store ''book_hold'' ''REQ-1'' ''NEW'' ''PAID'' None Map.empty
     = (Failure (field_required_message ''payment_method'' ''book_hold'' ''PAID''), example_store)
   \<and> fst (updateRequestStatus example_env example_store ''book_hold'' ''REQ-1'' ''NEW'' ''PAID'' None
            paid_fields)
     = Success ''Request REQ-1 status updated from NEW to PAID''
   \<and> stored_status (snd (updateRequestStatus example_env example_store ''book_hold'' ''REQ-1'' ''NEW''
                           ''PAID'' None paid_fields)) ''REQ-1''
     = Some (JString ''PAID'')
   \<and> validateOrderNumber ''12345'' = Valid"
proof -
  have a: "\<not> truthy (get_field Map.empty ''payment_method'')"
    by (simp add: get_field_def object_prototype_keys_def)
  have b: "truthy (get_field paid_fields ''payment_method'')"
       "truthy (get_field paid_fields ''order_number'')"
       "paid_fields ''status'' = None" "paid_fields ''requestId'' = None"
    by (simp_all add: get_field_def paid_fields_def)
  have c: "requests_update_ok example_env" by (simp add: example_env_def)
  have d: "validateOrderNumber ''12345'' = Valid"
    by (simp add: validateOrderNumber_def remove_spaces_def is_space_def is_digit_def)
  show ?thesis
    using book_hold_paid_gate[of Map.empty example_env example_store "''REQ-1''" None]
      book_hold_paid_gate[of paid_fields example_env example_store "''REQ-1''" None]
      a b c d example_findOne
    by simp
qed

text \<open>
  C3 as stated fails: with neither field in the bag the error names \<open>payment_method\<close>
  and does not mention \<open>order_number\<close>. And a bag that supplies both fields together with
  a \<open>status\<close> of its own makes the call succeed with that status stored, not \<open>PAID\<close>:
  the fields of the bag are written over the status in \<open>$set\<close>.
\<close>

theorem missing_fields_error_names_first_only:
  "fst (updateRequestStatus example_env example_store ''book_hold'' ''REQ-1'' ''NEW'' ''PAID'' None
          Map.empty)
     = Failure (field_required_message ''payment_method'' ''book_hold'' ''PAID'')
   \<and> \<not> str_includes (field_required_message ''payment_method'' ''book_hold'' ''PAID'')
         ''order_number''
   \<and> fst (updateRequestStatus example_env example_store ''book_hold'' ''REQ-1'' ''NEW'' ''PAID'' None
          paid_fields_with_status) = Success ''Request REQ-1 status updated from NEW to PAID''
   \<and> stored_status (snd (updateRequestStatus example_env example_store ''book_hold'' ''REQ-1'' ''NEW''
          ''PAID'' None paid_fields_with_status)) ''REQ-1'' = Some (JString ''NEW'')"
proof -
  have "\<not> truthy (get_field Map.empty ''payment_method'')"
    by (simp add: get_field_def object_prototype_keys_def)
  then have "fst (updateRequestStatus example_env example_store ''book_hold'' ''REQ-1'' ''NEW''
       ''PAID'' None Map.empty)
     = Failure (field_required_message ''payment_method'' ''book_hold'' ''PAID'')"
    by (simp add: updateRequestStatus_def book_hold_NEW_PAID_allowed book_hold_PAID_fields)
  moreover have "\<not> str_includes (field_required_message ''payment_method'' ''book_hold'' ''PAID'')
         ''order_number''"
    by code_simp
  ultimately show ?thesis using example_status_overridden by simp
qed

lemma log_status_change_eq:
  "log_status_change e st T rid A B uid extra
   = (let entry = status_change_entry e T rid A B uid extra;
          st1 = (if events_insert_ok e then st\<lparr>events := events st @ [entry]\<rparr> else st)
      in if events_file_ok e
         then st1\<lparr>event_log_files := (event_log_files st1)(T := event_log_files st1 T @ [entry])\<rparr>
         else st1)"
  unfolding log_status_change_def by (rule logEvent_status_change)

lemma log_status_change_frame:
  "requests (log_status_change e st T rid A B uid extra) = requests st"
  "request_log_files (log_status_change e st T rid A B uid extra) = request_log_files st"
  "events (log_status_change e st T rid A B uid extra) =
     (if events_insert_ok e then events st @ [status_change_entry e T rid A B uid extra]
      else events st)"
  by (simp_all add: log_status_change_eq Let_def)

lemma updateRequestStatus_steps:
  assumes "validateStatusTransition T A B = Inr ok" "validateRequiredFields T B extra = Inr ok'"
  shows "updateRequestStatus e st T rid A B uid extra =
     update_document e (log_status_change e st T rid A B uid extra) T rid A B extra"
  unfolding log_status_change_def by (rule updateRequestStatus_validated[OF assms])

lemma update_document_matches_history:
  assumes s: "fst (update_document e s T rid A B extra) = Success m"
      and x: "extra ''status'' = None" "extra ''requestId'' = None"
      and r: "replay_status (getRequestHistory s rid) = Some B"
  shows "status_matches_history (snd (update_document e s T rid A B extra)) rid"
proof -
  have "getRequestHistory (snd (update_document e s T rid A B extra)) rid = getRequestHistory s rid"
    by (simp add: getRequestHistory_def update_document_events)
  with r update_document_Success[OF s x] show ?thesis
    by (simp add: status_matches_history_def)
qed

text \<open>
  C4 (as amended). A call of \<open>updateRequestStatus\<close> that passes both validations is two
  steps: it first appends its \<open>STATUS_CHANGE\<close> event (the event insert succeeding), which
  touches no document, and then runs the store write on the state that already holds the
  event. The write step changes no event, and when it fails it changes nothing, so the
  event stays. When the write step succeeds, the bag not itself carrying \<open>status\<close> or
  \<open>requestId\<close>, the stored status is the new status; it is what replaying the request's
  events in timestamp order gives provided the events replayed to the new status when the
  write step started, that is, provided no other event of the request was appended
  between the two steps. This is so for a call that runs uninterrupted, when the event
  insert succeeded and every logged timestamp is earlier than the clock. A call that
  fails leaves the \<open>requests\<close> collection as it was.
\<close>

theorem status_change_logged_before_store_write:
  "(validateStatusTransition T A B = Inr True \<and> validateRequiredFields T B extra = Inr True
      \<longrightarrow> updateRequestStatus e st T rid A B uid extra
            = update_document e (log_status_change e st T rid A B uid extra) T rid A B extra)
   \<and> requests (log_status_change e st T rid A B uid extra) = requests st
   \<and> (events_insert_ok e
      \<longrightarrow> events (log_status_change e st T rid A B uid extra)
            = events st @ [status_change_entry e T rid A B uid extra])
   \<and> (events_insert_ok e \<and> (\<forall>ev \<in> set (events st). ev_timestamp ev < now e)
        \<and> B \<in> set (allowed_transitions T A)
      \<longrightarrow> replay_status (getRequestHistory (log_status_change e st T rid A B uid extra) rid)
            = Some B)
   \<and> events (snd (update_document e s T rid A B extra)) = events s
   \<and> ((\<exists>m. fst (update_document e s T rid A B extra) = Failure m)
      \<longrightarrow> snd (update_document e s T rid A B extra) = s)
   \<and> ((\<exists>m. fst (update_document e s T rid A B extra) = Success m)
        \<and> extra ''status'' = None \<and> extra ''requestId'' = None
        \<and> replay_status (getRequestHistory s rid) = Some B
      \<longrightarrow> stored_status (snd (update_document e s T rid A B extra)) rid = Some (JString B)
          \<and> status_matches_history (snd (update_document e s T rid A B extra)) rid)
   \<and> ((\<exists>m. fst (updateRequestStatus e st T rid A B uid extra) = Failure m)
      \<longrightarrow> requests (snd (updateRequestStatus e st T rid A B uid extra)) = requests st)
   \<and> ((\<exists>m. fst (updateRequestStatus e st T rid A B uid extra) = Success m)
        \<and> events_insert_ok e \<and> (\<forall>ev \<in> set (events st). ev_timestamp ev < now e)
        \<and> extra ''status'' = None \<and> extra ''requestId'' = None
      \<longrightarrow> stored_status (snd (updateRequestStatus e st T rid A B uid extra)) rid
            = Some (JString B)
          \<and> status_matches_history (snd (updateRequestStatus e st T rid A B uid extra)) rid)"
proof (intro conjI impI)
  assume "validateStatusTransition T A B = Inr True \<and> validateRequiredFields T B extra = Inr True"
  then show "updateRequestStatus e st T rid A B uid extra
            = update_document e (log_status_change e st T rid A B uid extra) T rid A B extra"
    by (simp add: updateRequestStatus_steps)
next
  show "requests (log_status_change e st T rid A B uid extra) = requests st"
    by (rule log_status_change_frame)
next
  assume "events_insert_ok e"
  then show "events (log_status_change e st T rid A B uid extra)
            = events st @ [status_change_entry e T rid A B uid extra]"
    by (simp add: log_status_change_frame)
next
  assume h: "events_insert_ok e \<and> (\<forall>ev \<in> set (events st). ev_timestamp ev < now e)
        \<and> B \<in> set (allowed_transitions T A)"
  let ?entry = "status_change_entry e T rid A B uid extra"
  let ?mine = "filter (\<lambda>ev. ev_requestId ev = rid) (events st)"
  have ne: "B \<noteq> []" using h allowed_not_empty by blast
  have "getRequestHistory (log_status_change e st T rid A B uid extra) rid
          = sort_key ev_timestamp (?mine @ [?entry])"
    using h by (simp add: getRequestHistory_def log_status_change_frame status_change_entry_def)
  also have "\<dots> = sort_key ev_timestamp ?mine @ [?entry]"
    by (rule sort_key_snoc) (use h in \<open>simp add: status_change_entry_def less_imp_le\<close>)
  finally show "replay_status (getRequestHistory (log_status_change e st T rid A B uid extra) rid)
            = Some B"
    using ne by (simp add: replay_status_snoc status_change_entry_def)
next
  show "events (snd (update_document e s T rid A B extra)) = events s"
    by (rule update_document_events)
next
  assume "\<exists>m. fst (update_document e s T rid A B extra) = Failure m"
  then show "snd (update_document e s T rid A B extra) = s"
    using update_document_Failure by blast
next
  assume h: "(\<exists>m. fst (update_document e s T rid A B extra) = Success m)
        \<and> extra ''status'' = None \<and> extra ''requestId'' = None
        \<and> replay_status (getRequestHistory s rid) = Some B"
  then obtain m where m: "fst (update_document e s T rid A B extra) = Success m" by blast
  from h show "stored_status (snd (update_document e s T rid A B extra)) rid = Some (JString B)"
    using update_document_Success[OF m] by blast
  from h show "status_matches_history (snd (update_document e s T rid A B extra)) rid"
    using update_document_matches_history[OF m] by blast
next
  assume "\<exists>m. fst (updateRequestStatus e st T rid A B uid extra) = Failure m"
  then show "requests (snd (updateRequestStatus e st T rid A B uid extra)) = requests st"
    using updateRequestStatus_Failure_requests by blast
next
  assume h: "(\<exists>m. fst (updateRequestStatus e st T rid A B uid extra) = Success m)
        \<and> events_insert_ok e \<and> (\<forall>ev \<in> set (events st). ev_timestamp ev < now e)
        \<and> extra ''status'' = None \<and> extra ''requestId'' = None"
  then obtain m where m: "fst (updateRequestStatus e st T rid A B uid extra) = Success m"
    by blast
  from h show s: "stored_status (snd (updateRequestStatus e st T rid A B uid extra)) rid
            = Some (JString B)"
    using updateRequestStatus_Success_stored[OF m] by blast
  from h have "\<And>ev. ev \<in> set (events st) \<Longrightarrow> ev_timestamp ev \<le> now e"
    by (simp add: less_imp_le)
  with h have "replay_status (getRequestHistory
        (snd (updateRequestStatus e st T rid A B uid extra)) rid) = Some B"
    using updateRequestStatus_Success_replay[OF m] by blast
  with s show "status_matches_history (snd (updateRequestStatus e st T rid A B uid extra)) rid"
    by (simp add: status_matches_history_def)
qed

theorem status_change_logged_before_store_write_witness:
  "updateRequestStatus example_env example_store ''book_hold'' ''REQ-1'' ''NEW'' ''PAID'' None
      paid_fields
     = update_document example_env
         (log_status_change example_env example_store ''book_hold'' ''REQ-1'' ''NEW'' ''PAID'' None
            paid_fields)
         ''book_hold'' ''REQ-1'' ''NEW'' ''PAID'' paid_fields
   \<and> events (log_status_change example_env example_store ''book_hold'' ''REQ-1'' ''NEW'' ''PAID''
                None paid_fields)
     = events example_store
         @ [status_change_entry example_env ''book_hold'' ''REQ-1'' ''NEW'' ''PAID'' None paid_fields]
   \<and> replay_status (getRequestHistory
         (log_status_change example_env example_store ''book_hold'' ''REQ-1'' ''NEW'' ''PAID'' None
            paid_fields) ''REQ-1'') = Some ''PAID''
   \<and> stored_status (snd (update_document example_env
         (log_status_change example_env example_store ''book_hold'' ''REQ-1'' ''NEW'' ''PAID'' None
            paid_fields)
         ''book_hold'' ''REQ-1'' ''NEW'' ''PAID'' paid_fields)) ''REQ-1'' = Some (JString ''PAID'')
   \<and> status_matches_history (snd (update_document example_env
         (log_status_change example_env example_store ''book_hold'' ''REQ-1'' ''NEW'' ''PAID'' None
            paid_fields)
         ''book_hold'' ''REQ-1'' ''NEW'' ''PAID'' paid_fields)) ''REQ-1''
   \<and> stored_status (snd (updateRequestStatus example_env example_store ''book_hold'' ''REQ-1''
                           ''NEW'' ''PAID'' None paid_fields)) ''REQ-1'' = Some (JString ''PAID'')
   \<and> status_matches_history (snd (updateRequestStatus example_env example_store ''book_hold''
                           ''REQ-1'' ''NEW'' ''PAID'' None paid_fields)) ''REQ-1''
   \<and> fst (update_document example_env
         (log_status_change example_env example_store ''book_hold'' ''REQ-2'' ''NEW'' ''PAID'' None
            paid_fields)
         ''book_hold'' ''REQ-2'' ''NEW'' ''PAID'' paid_fields)
       = Failure ''No request found with ID: REQ-2''
   \<and> snd (update_document example_env
         (log_status_change example_env example_store ''book_hold'' ''REQ-2'' ''NEW'' ''PAID'' None
            paid_fields)
         ''book_hold'' ''REQ-2'' ''NEW'' ''PAID'' paid_fields)
       = log_status_change example_env example_store ''book_hold'' ''REQ-2'' ''NEW'' ''PAID'' None
            paid_fields
   \<and> requests (snd (updateRequestStatus example_env example_store ''book_hold'' ''REQ-2'' ''NEW''
                  ''PAID'' None paid_fields)) = requests example_store"
proof -
  let ?s = "log_status_change example_env example_store ''book_hold'' ''REQ-1'' ''NEW'' ''PAID''
              None paid_fields"
  let ?s2 = "log_status_change example_env example_store ''book_hold'' ''REQ-2'' ''NEW'' ''PAID''
              None paid_fields"
  have s: "fst (updateRequestStatus example_env example_store ''book_hold'' ''REQ-1'' ''NEW''
            ''PAID'' None paid_fields) = Success ''Request REQ-1 status updated from NEW to PAID''"
    by (rule example_updated)
  then have w: "fst (update_document example_env ?s ''book_hold'' ''REQ-1'' ''NEW'' ''PAID''
            paid_fields) = Success ''Request REQ-1 status updated from NEW to PAID''"
    by (simp add: updateRequestStatus_steps[OF book_hold_NEW_PAID_allowed paid_fields_valid])
  have f: "fst (updateRequestStatus example_env example_store ''book_hold'' ''REQ-2'' ''NEW''
            ''PAID'' None paid_fields) = Failure ''No request found with ID: REQ-2''"
    by (simp add: example_not_found)
  then have wf: "fst (update_document example_env ?s2 ''book_hold'' ''REQ-2'' ''NEW'' ''PAID''
            paid_fields) = Failure ''No request found with ID: REQ-2''"
    by (simp add: updateRequestStatus_steps[OF book_hold_NEW_PAID_allowed paid_fields_valid])
  have h: "events_insert_ok example_env"
      "\<forall>ev \<in> set (events example_store). ev_timestamp ev < now example_env"
      "paid_fields ''status'' = None" "paid_fields ''requestId'' = None"
    by (simp_all add: example_env_def example_store_def paid_fields_def)
  have a: "''PAID'' \<in> set (allowed_transitions ''book_hold'' ''NEW'')"
    using book_hold_NEW_PAID_allowed by (rule validateStatusTransition_Inr)
  note t1 = status_change_logged_before_store_write[of "''book_hold''" "''NEW''" "''PAID''"
        paid_fields example_env example_store "''REQ-1''" None ?s]
  note t2 = status_change_logged_before_store_write[of "''book_hold''" "''NEW''" "''PAID''"
        paid_fields example_env example_store "''REQ-2''" None ?s2]
  note r1 = t1[THEN conjunct2]
  note r2 = r1[THEN conjunct2]
  note r3 = r2[THEN conjunct2]
  note r4 = r3[THEN conjunct2]
  note r5 = r4[THEN conjunct2]
  note r6 = r5[THEN conjunct2]
  note r7 = r6[THEN conjunct2]
  have c1: "updateRequestStatus example_env example_store ''book_hold'' ''REQ-1'' ''NEW'' ''PAID''
      None paid_fields
     = update_document example_env ?s ''book_hold'' ''REQ-1'' ''NEW'' ''PAID'' paid_fields"
    using t1[THEN conjunct1] book_hold_NEW_PAID_allowed paid_fields_valid by simp
  have c3: "events ?s = events example_store
         @ [status_change_entry example_env ''book_hold'' ''REQ-1'' ''NEW'' ''PAID'' None paid_fields]"
    using r2[THEN conjunct1] h(1) by simp
  have c4: "replay_status (getRequestHistory ?s ''REQ-1'') = Some ''PAID''"
    using r3[THEN conjunct1] h(1,2) a by simp
  have c7: "stored_status (snd (update_document example_env ?s ''book_hold'' ''REQ-1'' ''NEW''
         ''PAID'' paid_fields)) ''REQ-1'' = Some (JString ''PAID'')
     \<and> status_matches_history (snd (update_document example_env ?s ''book_hold'' ''REQ-1'' ''NEW''
         ''PAID'' paid_fields)) ''REQ-1''"
    using r6[THEN conjunct1] w h(3,4) c4 by simp
  have c9: "stored_status (snd (updateRequestStatus example_env example_store ''book_hold''
         ''REQ-1'' ''NEW'' ''PAID'' None paid_fields)) ''REQ-1'' = Some (JString ''PAID'')
     \<and> status_matches_history (snd (updateRequestStatus example_env example_store ''book_hold''
                           ''REQ-1'' ''NEW'' ''PAID'' None paid_fields)) ''REQ-1''"
    using r7[THEN conjunct2] s h by simp
  have c6: "snd (update_document example_env ?s2 ''book_hold'' ''REQ-2'' ''NEW'' ''PAID''
         paid_fields) = ?s2"
    using t2[THEN conjunct2, THEN conjunct2, THEN conjunct2, THEN conjunct2, THEN conjunct2,
        THEN conjunct1] wf by simp
  have c8: "requests (snd (updateRequestStatus example_env example_store ''book_hold'' ''REQ-2''
         ''NEW'' ''PAID'' None paid_fields)) = requests example_store"
    using t2[THEN conjunct2, THEN conjunct2, THEN conjunct2, THEN conjunct2, THEN conjunct2,
        THEN conjunct2, THEN conjunct2, THEN conjunct1] f by simp
  from c1 c3 c4 c7 c9 wf c6 c8 show ?thesis by blast
qed

lemma book_hold_PAID_COMPLETED_allowed:
  "validateStatusTransition ''book_hold'' ''PAID'' ''COMPLETED'' = Inr True"
  "validateStatusTransition ''book_hold'' ''PAID'' ''CANCELLED'' = Inr True"
  unfolding validateStatusTransition_def book_hold_config
  by (simp_all add: get_property_def BOOK_HOLD_TRANSITIONS_def)

lemma book_hold_completion_fields:
  "validateRequiredFields ''book_hold'' ''COMPLETED'' completion_fields = Inr True"
  "validateRequiredFields ''book_hold'' ''CANCELLED'' Map.empty = Inr True"
  unfolding validateRequiredFields_def book_hold_config
  by (simp_all add: get_property_def object_prototype_keys_def get_field_def
      completion_fields_def)

lemma interleaved_calls_diverge:
  "fst interleaved_calls = Success ''Request REQ-1 status updated from PAID to COMPLETED''"
  "fst (snd interleaved_calls) = Success ''Request REQ-1 status updated from PAID to CANCELLED''"
  "stored_status (snd (snd interleaved_calls)) ''REQ-1'' = Some (JString ''COMPLETED'')"
  "map ev_newStatus (getRequestHistory (snd (snd interleaved_calls)) ''REQ-1'')
     = [''NEW'', ''PAID'', ''COMPLETED'', ''CANCELLED'']"
  "replay_status (getRequestHistory (snd (snd interleaved_calls)) ''REQ-1'') = Some ''CANCELLED''"
  by (simp_all add: interleaved_calls_def log_status_change_eq update_document_def Let_def
      example_env_def later_env_def paid_store_def completion_fields_def status_change_entry_def
      matches_requestId_def stored_status_def findOne_def getRequestHistory_def replay_status_def
      map_add_def or_else_def)

text \<open>
  C4 as stated fails. The store of the example agrees with its event log. An update of a
  request that is in neither the collection nor the request log fails, writes no
  document, and leaves its \<open>STATUS_CHANGE\<close> event behind. An update of the stored request
  whose \<open>updateOne\<close> throws fails as well: the log then replays to \<open>PAID\<close> while the
  stored status is still \<open>NEW\<close>. An update whose event insert throws (\<open>logEvent\<close>
  carries on) succeeds: the stored status is \<open>PAID\<close> and the collection of events holds
  no record of it. And two calls on a request stored as \<open>PAID\<close>, one to \<open>COMPLETED\<close>
  and one to \<open>CANCELLED\<close>, whose steps interleave (first event, second event, second
  write, first write) both succeed with no failure anywhere: the stored status is
  \<open>COMPLETED\<close> and the log replays to \<open>CANCELLED\<close>.
\<close>

theorem status_change_event_without_store_write:
  "status_matches_history example_store ''REQ-1''
   \<and> fst (updateRequestStatus example_env example_store ''book_hold'' ''REQ-2'' ''NEW'' ''PAID'' None
            paid_fields) = Failure ''No request found with ID: REQ-2''
   \<and> map ev_action (getRequestHistory (snd (updateRequestStatus example_env example_store
            ''book_hold'' ''REQ-2'' ''NEW'' ''PAID'' None paid_fields)) ''REQ-2'') = [''STATUS_CHANGE'']
   \<and> stored_status (snd (updateRequestStatus example_env example_store ''book_hold'' ''REQ-2''
            ''NEW'' ''PAID'' None paid_fields)) ''REQ-2'' = None
   \<and> fst (updateRequestStatus (example_env\<lparr>requests_update_ok := False\<rparr>) example_store
            ''book_hold'' ''REQ-1'' ''NEW'' ''PAID'' None paid_fields) = Failure ''connection refused''
   \<and> map ev_newStatus (getRequestHistory (snd (updateRequestStatus
            (example_env\<lparr>requests_update_ok := False\<rparr>) example_store ''book_hold'' ''REQ-1''
            ''NEW'' ''PAID'' None paid_fields)) ''REQ-1'') = [''NEW'', ''PAID'']
   \<and> stored_status (snd (updateRequestStatus (example_env\<lparr>requests_update_ok := False\<rparr>)
            example_store ''book_hold'' ''REQ-1'' ''NEW'' ''PAID'' None paid_fields)) ''REQ-1''
         = Some (JString ''NEW'')
   \<and> \<not> status_matches_history (snd (updateRequestStatus
            (example_env\<lparr>requests_update_ok := False\<rparr>) example_store ''book_hold'' ''REQ-1''
            ''NEW'' ''PAID'' None paid_fields)) ''REQ-1''
   \<and> fst (updateRequestStatus (example_env\<lparr>events_insert_ok := False\<rparr>) example_store
            ''book_hold'' ''REQ-1'' ''NEW'' ''PAID'' None paid_fields)
         = Success ''Request REQ-1 status updated from NEW to PAID''
   \<and> stored_status (snd (updateRequestStatus (example_env\<lparr>events_insert_ok := False\<rparr>)
            example_store ''book_hold'' ''REQ-1'' ''NEW'' ''PAID'' None paid_fields)) ''REQ-1''
         = Some (JString ''PAID'')
   \<and> map ev_newStatus (getRequestHistory (snd (updateRequestStatus
            (example_env\<lparr>events_insert_ok := False\<rparr>) example_store ''book_hold'' ''REQ-1''
            ''NEW'' ''PAID'' None paid_fields)) ''REQ-1'') = [''NEW'']
   \<and> status_matches_history paid_store ''REQ-1''
   \<and> fst interleaved_calls = Success ''Request REQ-1 status updated from PAID to COMPLETED''
   \<and> fst (snd interleaved_calls)
         = Success ''Request REQ-1 status updated from PAID to CANCELLED''
   \<and> stored_status (snd (snd interleaved_calls)) ''REQ-1'' = Some (JString ''COMPLETED'')
   \<and> replay_status (getRequestHistory (snd (snd interleaved_calls)) ''REQ-1'')
         = Some ''CANCELLED''
   \<and> \<not> status_matches_history (snd (snd interleaved_calls)) ''REQ-1''"
proof -
  have a: "status_matches_history example_store ''REQ-1''"
    by (simp add: status_matches_history_def stored_status_def findOne_def getRequestHistory_def
        replay_status_def example_store_def matches_requestId_def)
  have b: "map ev_newStatus (getRequestHistory (snd (updateRequestStatus
            (example_env\<lparr>events_insert_ok := False\<rparr>) example_store ''book_hold'' ''REQ-1''
            ''NEW'' ''PAID'' None paid_fields)) ''REQ-1'') = [''NEW'']"
    unfolding getRequestHistory_def example_event_insert_fails(3)
    by (simp add: example_store_def)
  have c: "status_matches_history paid_store ''REQ-1''"
    by (simp add: status_matches_history_def stored_status_def findOne_def getRequestHistory_def
        replay_status_def paid_store_def matches_requestId_def)
  have d: "\<not> status_matches_history (snd (snd interleaved_calls)) ''REQ-1''"
    by (simp add: status_matches_history_def interleaved_calls_diverge)
  show ?thesis
    using a b c d example_event_insert_fails(1,2) interleaved_calls_diverge(1,2,3,5)
    unfolding example_not_found example_db_down
    by (simp add: status_matches_history_def stored_status_def findOne_def getRequestHistory_def
        replay_status_def example_store_def example_env_def status_change_entry_def
        matches_requestId_def)
qed

section \<open>Properties of the date checks\<close>

text \<open>
  Each check compares local calendar days. \<open>arrival_date\<close> is parsed as a local midnight
  and checked against tomorrow. \<open>estimated_arrival\<close> is parsed as a midnight in UTC, which
  west of UTC falls on the day before; \<open>required_fields_submission\<close> checks it against
  tomorrow, \<open>mark_as_ordered_submission\<close> against today (\<open>getDate() + 0\<close>).
\<close>

lemma local_day_of_day: "local_day tz (day * DAY_MS) = day + tz div DAY_MS"
  by (simp add: local_day_def DAY_MS_def)

lemma local_day_next: "local_day tz (setDate_plus 1 t) = local_day tz t + 1"
  by (simp add: local_day_def setDate_plus_def DAY_MS_def)

lemma setHours0_less: "setHours0 tz a < setHours0 tz b \<longleftrightarrow> local_day tz a < local_day tz b"
  by (simp add: setHours0_def DAY_MS_def)

lemma setHours0_local_midnight: "setHours0 tz (day * DAY_MS - tz) = day * DAY_MS - tz"
  by (simp add: setHours0_def local_day_def DAY_MS_def)

lemma local_day_local_midnight: "local_day tz (day * DAY_MS - tz) = day"
  by (simp add: local_day_def DAY_MS_def)

lemma mark_as_ordered_date_errors_iff:
  "mark_as_ordered_date_errors tz t (Picker (Some day)) = [] \<longleftrightarrow>
     local_day tz t \<le> day + tz div DAY_MS"
  by (simp add: mark_as_ordered_date_errors_def Let_def setHours0_less local_day_of_day
      setDate_plus_def)

lemma required_fields_estimated_arrival_iff:
  "required_fields_date_errors tz t S (only_estimated_arrival day) = Inr [] \<longleftrightarrow>
     local_day tz t + 1 \<le> day + tz div DAY_MS"
  by (simp add: required_fields_date_errors_def only_estimated_arrival_def Let_def
      date_not_future_error_def setHours0_less local_day_of_day local_day_next)

lemma required_fields_arrival_date_iff:
  "required_fields_date_errors tz t ''RECEIVED'' (only_arrival_date day) = Inr [] \<longleftrightarrow>
     day \<le> local_day tz t"
proof -
  have "setHours0 tz (setDate_plus 1 t) \<le> setHours0 tz (day * DAY_MS - tz)
        \<longleftrightarrow> local_day tz t + 1 \<le> day"
    using setHours0_less[of tz "day * DAY_MS - tz" "setDate_plus 1 t"]
    by (simp add: local_day_next local_day_local_midnight not_less[symmetric])
  then show ?thesis
    by (auto simp add: required_fields_date_errors_def only_arrival_date_def Let_def
        date_not_future_error_def setHours0_local_midnight)
qed

lemma arrival_date_boundary:
  "required_fields_date_errors tz t ''RECEIVED'' (only_arrival_date (local_day tz t)) = Inr []"
  "required_fields_date_errors tz t ''RECEIVED'' (only_arrival_date (local_day tz t + 1)) \<noteq> Inr []"
  by (simp_all add: required_fields_arrival_date_iff)

lemma estimated_arrival_boundary_east_of_utc:
  assumes "0 \<le> tz" "tz < DAY_MS"
  shows "required_fields_date_errors tz t S (only_estimated_arrival (local_day tz t + 1)) = Inr []"
    and "required_fields_date_errors tz t S (only_estimated_arrival (local_day tz t)) \<noteq> Inr []"
    and "mark_as_ordered_date_errors tz t (Picker (Some (local_day tz t + 1))) = []"
    and "mark_as_ordered_date_errors tz t (Picker (Some (local_day tz t))) = []"
  using assms
  by (simp_all add: required_fields_estimated_arrival_iff mark_as_ordered_date_errors_iff)

lemma estimated_arrival_boundary_west_of_utc:
  assumes "- DAY_MS \<le> tz" "tz < 0"
  shows "required_fields_date_errors tz t S (only_estimated_arrival (local_day tz t + 1)) \<noteq> Inr []"
    and "required_fields_date_errors tz t S (only_estimated_arrival (local_day tz t)) \<noteq> Inr []"
    and "mark_as_ordered_date_errors tz t (Picker (Some (local_day tz t + 1))) = []"
    and "mark_as_ordered_date_errors tz t (Picker (Some (local_day tz t))) \<noteq> []"
proof -
  have "tz div DAY_MS = - 1"
    using assms by (simp add: DAY_MS_def div_pos_neg_trivial zdiv_eq_0_iff)
  then show 
    "required_fields_date_errors tz t S (only_estimated_arrival (local_day tz t + 1)) \<noteq> Inr []"
    "required_fields_date_errors tz t S (only_estimated_arrival (local_day tz t)) \<noteq> Inr []"
    "mark_as_ordered_date_errors tz t (Picker (Some (local_day tz t + 1))) = []"
    "mark_as_ordered_date_errors tz t (Picker (Some (local_day tz t))) \<noteq> []"
    by (simp_all add: required_fields_estimated_arrival_iff mark_as_ordered_date_errors_iff)
qed

text \<open>
  With the block of \<open>arrival_date\<close> present and no date selected, the handler throws
  before it compares anything.
\<close>

lemma arrival_date_not_selected_throws:
  "required_fields_date_errors tz t ''RECEIVED''
     \<lparr>arrival_date = Picker None, notification_date = NoBlock, completion_date = NoBlock,
      estimated_arrival = NoBlock\<rparr> = Inl (JsRangeError ''Invalid time value'')"
  by (simp add: required_fields_date_errors_def date_not_future_error_def Let_def)

text \<open>
  C7. Two submissions the policy decides the other way. In a process running in UTC, at noon
  of day 20000, \<open>mark_as_ordered_submission\<close> accepts an estimated arrival of that same
  day. In a process five hours behind UTC, at 13:00 local time of day 20000,
  \<open>required_fields_submission\<close> rejects an estimated arrival of day 20001, the next day.
\<close>

theorem estimated_arrival_boundary_by_zone:
  "local_day 0 1728043200000 = 20000
   \<and> mark_as_ordered_date_errors 0 1728043200000 (Picker (Some 20000)) = []
   \<and> local_day (- 18000000) 1728064800000 = 20000
   \<and> required_fields_date_errors (- 18000000) 1728064800000 ''ORDERED''
        (only_estimated_arrival 20001)
      = Inr [(''estimated_arrival'', ''Estimated arrival date must be tomorrow or later'')]"
  by (simp add: mark_as_ordered_date_errors_def required_fields_date_errors_def
      only_estimated_arrival_def date_not_future_error_def setHours0_def local_day_def
      setDate_plus_def DAY_MS_def Let_def)

end
